theory Spec2Isabelle
  imports Complex_Main "HOL-Library.Word"
begin

section \<open>Memory: buffers, allocator outcomes\<close>

text \<open>
  The matrix classes of Seldon hold a raw pointer \<open>data_\<close> to a buffer obtained from
  the \<open>Allocator\<close> template parameter. The store maps the address of every live
  buffer to its elements; an address outside the domain is not allocated. The null
  pointer is \<open>None\<close>.

  The allocator is a template parameter of the classes and is not part of the
  translated sources, so the result of each call is an input of the model: the call
  throws, returns the null pointer, or returns a block at an address \<open>a\<close> whose
  elements are whatever the allocator left there (\<open>fill k\<close> at position \<open>k\<close>).
  The matrix code is modelled as compiled with \<open>SELDON_CHECK_MEMORY\<close>, the build
  that contains the error handling.
\<close>

type_synonym addr = nat

type_synonym 'a heap = "addr \<rightharpoonup> 'a list"

datatype 'a alloc_outcome = Alloc_throws | Alloc_null | Alloc_block addr "nat \<Rightarrow> 'a"

datatype dealloc_outcome = Dealloc_ok | Dealloc_throws

datatype 'p attempt = Threw | Returned 'p

datatype error = NoMemory | IOError | DivideByZero

definition allocate :: "int \<Rightarrow> 'a alloc_outcome \<Rightarrow> 'a heap \<Rightarrow> addr option attempt \<times> 'a heap" where
  "allocate n oc h =
     (case oc of
        Alloc_throws \<Rightarrow> (Threw, h)
      | Alloc_null \<Rightarrow> (Returned None, h)
      | Alloc_block a fill \<Rightarrow> (Returned (Some a), h(a \<mapsto> map fill [0..<nat n])))"

definition release :: "addr option \<Rightarrow> 'a heap \<Rightarrow> 'a heap" where
  "release p h = (case p of None \<Rightarrow> h | Some a \<Rightarrow> h(a := None))"

definition reallocate ::
  "addr option \<Rightarrow> int \<Rightarrow> 'a alloc_outcome \<Rightarrow> 'a heap \<Rightarrow> addr option attempt \<times> 'a heap" where
  "reallocate p n oc h =
     (case oc of
        Alloc_throws \<Rightarrow> (Threw, h)
      | Alloc_null \<Rightarrow> (Returned None, h)
      | Alloc_block a fill \<Rightarrow> (Returned (Some a), (release p h)(a \<mapsto> map fill [0..<nat n])))"

definition deallocate :: "addr \<Rightarrow> dealloc_outcome \<Rightarrow> 'a heap \<Rightarrow> unit attempt \<times> 'a heap" where
  "deallocate a oc h =
     (case oc of Dealloc_throws \<Rightarrow> (Threw, h) | Dealloc_ok \<Rightarrow> (Returned (), h(a := None)))"


section \<open>Matrix_HermPacked\<close>

text \<open>
  \<open>Matrix_Base\<close> carries the attributes \<open>m_\<close> (here \<open>this_m\<close>), \<open>n_\<close> and \<open>data_\<close> that the
  derived classes reach through \<open>this->\<close>. Dimensions are C++ \<open>int\<close>; they are
  modelled as unbounded integers (signed overflow of \<open>i * i\<close> is undefined in C++).
  An operation that throws leaves an object behind, so the error is returned together
  with the state reached: \<open>Inl (e, state)\<close>.
\<close>

record Matrix_Base =
  this_m :: int
  this_n :: int
  this_data :: "addr option"

definition GetM :: "'z Matrix_Base_scheme \<Rightarrow> int" where
  "GetM A = this_m A"

definition GetN :: "'z Matrix_Base_scheme \<Rightarrow> int" where
  "GetN A = this_n A"

text \<open>\<open>Matrix_HermPacked(int i, int j)\<close>: base constructor with \<open>(i, i)\<close>, then the buffer.\<close>

definition HermPacked_Matrix ::
  "int \<Rightarrow> int \<Rightarrow> 'a alloc_outcome \<Rightarrow> 'a heap \<Rightarrow> Matrix_Base \<times> 'a heap" where
  "HermPacked_Matrix i j oc h =
     (let A = \<lparr>this_m = i, this_n = i, this_data = None\<rparr> in
      case allocate ((i * (i + 1)) div 2) oc h of
        (Threw, h') \<Rightarrow> (A\<lparr>this_m := 0, this_n := 0, this_data := None\<rparr>, h')
      | (Returned None, h') \<Rightarrow> (A\<lparr>this_data := None, this_m := 0, this_n := 0\<rparr>, h')
      | (Returned (Some a), h') \<Rightarrow> (A\<lparr>this_data := Some a\<rparr>, h'))"

text \<open>\<open>Clear()\<close>: releases the buffer if there is one; the matrix is 0 x 0 on exit.\<close>

definition HermPacked_Clear ::
  "dealloc_outcome \<Rightarrow> Matrix_Base \<times> 'a heap \<Rightarrow> Matrix_Base \<times> 'a heap" where
  "HermPacked_Clear oc s =
     (case s of (A, h) \<Rightarrow>
        (case this_data A of
           None \<Rightarrow> (A\<lparr>this_m := 0, this_n := 0\<rparr>, h)
         | Some a \<Rightarrow>
             (case deallocate a oc h of
                (Threw, h') \<Rightarrow> (A\<lparr>this_m := 0, this_n := 0, this_data := None\<rparr>, h')
              | (Returned u, h') \<Rightarrow> (A\<lparr>this_data := None, this_m := 0, this_n := 0\<rparr>, h'))))"

text \<open>\<open>Reallocate(int i, int j)\<close>.\<close>

definition HermPacked_Reallocate ::
  "int \<Rightarrow> int \<Rightarrow> 'a alloc_outcome \<Rightarrow> Matrix_Base \<times> 'a heap
     \<Rightarrow> (error \<times> Matrix_Base \<times> 'a heap) + (Matrix_Base \<times> 'a heap)" where
  "HermPacked_Reallocate i j oc s =
     (case s of (A, h) \<Rightarrow>
        if i \<noteq> this_m A then
          (let A1 = A\<lparr>this_m := i, this_n := i\<rparr> in
           case reallocate (this_data A1) ((i * (i + 1)) div 2) oc h of
             (Threw, h') \<Rightarrow> Inl (NoMemory, A1\<lparr>this_m := 0, this_n := 0, this_data := None\<rparr>, h')
           | (Returned None, h') \<Rightarrow> Inl (NoMemory, A1\<lparr>this_data := None, this_m := 0, this_n := 0\<rparr>, h')
           | (Returned (Some a), h') \<Rightarrow> Inr (A1\<lparr>this_data := Some a\<rparr>, h'))
        else Inr (A, h))"

text \<open>\<open>SetData(int i, int j, pointer data)\<close>: clears, then adopts the caller's buffer.\<close>

definition HermPacked_SetData ::
  "int \<Rightarrow> int \<Rightarrow> addr option \<Rightarrow> dealloc_outcome \<Rightarrow> Matrix_Base \<times> 'a heap
     \<Rightarrow> Matrix_Base \<times> 'a heap" where
  "HermPacked_SetData i j data oc s =
     (case HermPacked_Clear oc s of (A, h) \<Rightarrow> (A\<lparr>this_m := i, this_n := i, this_data := data\<rparr>, h))"

text \<open>\<open>Nullify()\<close>: forgets the buffer without releasing it.\<close>

definition HermPacked_Nullify :: "Matrix_Base \<times> 'a heap \<Rightarrow> Matrix_Base \<times> 'a heap" where
  "HermPacked_Nullify s = (case s of (A, h) \<Rightarrow> (A\<lparr>this_data := None, this_m := 0, this_n := 0\<rparr>, h))"


section \<open>Matrix_Triangular\<close>

text \<open>
  The storage policy is a template parameter (\<open>RowUpTriang\<close>, \<open>RowLoTriang\<close>,
  \<open>ColUpTriang\<close>, \<open>ColLoTriang\<close>). Its static members are used by the translated
  code but declared elsewhere.

  Modelled from the spec: the storage classes of \<open>Storage.hxx\<close>, which is not among
  the translated sources. The buffer is row-major or column-major and one triangle,
  upper or lower, is the stored one: \<open>GetFirst\<close> selects the index of the major
  direction, \<open>GetSecond\<close> the other one, \<open>UpLo\<close> tells whether the upper triangle is
  stored.
\<close>

datatype Storage = RowUpTriang | RowLoTriang | ColUpTriang | ColLoTriang

fun GetFirst :: "Storage \<Rightarrow> int \<Rightarrow> int \<Rightarrow> int" where
  "GetFirst RowUpTriang i j = i"
| "GetFirst RowLoTriang i j = i"
| "GetFirst ColUpTriang i j = j"
| "GetFirst ColLoTriang i j = j"

fun GetSecond :: "Storage \<Rightarrow> int \<Rightarrow> int \<Rightarrow> int" where
  "GetSecond RowUpTriang i j = j"
| "GetSecond RowLoTriang i j = j"
| "GetSecond ColUpTriang i j = i"
| "GetSecond ColLoTriang i j = i"


text \<open>
  \<open>me_\<close> is a separately allocated array of pointers into the buffer: entry \<open>k\<close> is
  a base pointer and an element offset. \<open>calloc\<close> and \<open>realloc\<close> of that array
  succeed or fail as the environment decides; a fresh entry is the null pointer with
  offset 0, and \<open>realloc\<close> keeps the entries that fit.
\<close>

type_synonym row_ptr = "addr option \<times> int"

record Matrix_Triangular = Matrix_Base +
  this_me :: "row_ptr list option"

datatype me_outcome = Me_throws | Me_null | Me_block

definition calloc_me :: "int \<Rightarrow> me_outcome \<Rightarrow> row_ptr list option attempt" where
  "calloc_me i oc =
     (case oc of
        Me_throws \<Rightarrow> Threw
      | Me_null \<Rightarrow> Returned None
      | Me_block \<Rightarrow> Returned (Some (replicate (nat i) (None, 0))))"

definition realloc_me :: "row_ptr list option \<Rightarrow> int \<Rightarrow> me_outcome \<Rightarrow> row_ptr list option attempt" where
  "realloc_me old i oc =
     (case oc of
        Me_throws \<Rightarrow> Threw
      | Me_null \<Rightarrow> Returned None
      | Me_block \<Rightarrow>
          (let xs = (case old of None \<Rightarrow> [] | Some ys \<Rightarrow> ys)
           in Returned (Some (take (nat i) xs @ replicate (nat i - length xs) (None, 0)))))"

text \<open>
  The loop \<open>for (int k = 0; k < cnt; k++, ptr += lgth) me_[k] = ptr;\<close> with \<open>c\<close>
  iterations left.
\<close>

fun fill_me :: "nat \<Rightarrow> nat \<Rightarrow> row_ptr \<Rightarrow> int \<Rightarrow> row_ptr list \<Rightarrow> row_ptr list" where
  "fill_me 0 k ptr lgth me = me"
| "fill_me (Suc c) k ptr lgth me = fill_me c (Suc k) (fst ptr, snd ptr + lgth) lgth (me[k := ptr])"

definition set_rows :: "int \<Rightarrow> int \<Rightarrow> Matrix_Triangular \<Rightarrow> Matrix_Triangular" where
  "set_rows cnt lgth A =
     A\<lparr>this_me := map_option (fill_me (nat cnt) 0 (this_data A, 0) lgth) (this_me A)\<rparr>"

text \<open>\<open>Matrix_Triangular(int i, int j)\<close>.\<close>

definition Triangular_Matrix ::
  "int \<Rightarrow> int \<Rightarrow> me_outcome \<Rightarrow> 'a alloc_outcome \<Rightarrow> 'a heap
     \<Rightarrow> (error \<times> Matrix_Triangular \<times> 'a heap) + (Matrix_Triangular \<times> 'a heap)" where
  "Triangular_Matrix i j moc oc h =
     (let A0 = \<lparr>this_m = i, this_n = i, this_data = None, this_me = None\<rparr>;
          A1 = (case calloc_me i moc of
                  Threw \<Rightarrow> A0\<lparr>this_m := 0, this_n := 0, this_me := None, this_data := None\<rparr>
                | Returned p \<Rightarrow> A0\<lparr>this_me := p\<rparr>);
          A2 = (if this_me A1 = None then A1\<lparr>this_m := 0, this_n := 0, this_data := None\<rparr>
                else A1)
      in if this_me A2 = None \<and> i \<noteq> 0 then Inl (NoMemory, A2, h)
         else
           (case allocate (i * i) oc h of (r, h') \<Rightarrow>
              (let A3 = (case r of
                           Threw \<Rightarrow> A2\<lparr>this_m := 0, this_n := 0, this_me := None, this_data := None\<rparr>
                         | Returned p \<Rightarrow> A2\<lparr>this_data := p\<rparr>);
                   A4 = (if this_data A3 = None then A3\<lparr>this_m := 0, this_n := 0, this_me := None\<rparr>
                         else A3)
               in if this_data A4 = None \<and> i \<noteq> 0 then Inl (NoMemory, A4, h')
                  else Inr (set_rows i i A4, h'))))"

text \<open>\<open>Clear()\<close>: releases the buffer and the pointer array.\<close>

definition Triangular_Clear ::
  "dealloc_outcome \<Rightarrow> Matrix_Triangular \<times> 'a heap \<Rightarrow> Matrix_Triangular \<times> 'a heap" where
  "Triangular_Clear oc s =
     (case s of (A, h) \<Rightarrow>
        (let (A1, h1) =
               (case this_data A of
                  None \<Rightarrow> (A, h)
                | Some a \<Rightarrow>
                    (case deallocate a oc h of
                       (Threw, h') \<Rightarrow> (A\<lparr>this_data := None\<rparr>, h')
                     | (Returned u, h') \<Rightarrow> (A\<lparr>this_data := None\<rparr>, h')));
             A2 = (if this_me A1 \<noteq> None then A1\<lparr>this_me := None\<rparr> else A1)
         in (A2\<lparr>this_m := 0, this_n := 0\<rparr>, h1)))"

text \<open>\<open>Reallocate(int i, int j)\<close>.\<close>

definition Triangular_Reallocate ::
  "Storage \<Rightarrow> int \<Rightarrow> int \<Rightarrow> me_outcome \<Rightarrow> 'a alloc_outcome \<Rightarrow> Matrix_Triangular \<times> 'a heap
     \<Rightarrow> (error \<times> Matrix_Triangular \<times> 'a heap) + (Matrix_Triangular \<times> 'a heap)" where
  "Triangular_Reallocate S i j moc oc s =
     (case s of (A, h) \<Rightarrow>
        if i \<noteq> this_m A then
          (let A0 = A\<lparr>this_m := i, this_n := i\<rparr>;
               A1 = (case realloc_me (this_me A0) i moc of
                       Threw \<Rightarrow> A0\<lparr>this_m := 0, this_n := 0, this_me := None, this_data := None\<rparr>
                     | Returned p \<Rightarrow> A0\<lparr>this_me := p\<rparr>);
               A2 = (if this_me A1 = None then A1\<lparr>this_m := 0, this_n := 0, this_data := None\<rparr>
                     else A1)
           in if this_me A2 = None \<and> i \<noteq> 0 then Inl (NoMemory, A2, h)
              else
                (case reallocate (this_data A2) (i * i) oc h of (r, h') \<Rightarrow>
                   (let A3 = (case r of
                                Threw \<Rightarrow> A2\<lparr>this_m := 0, this_n := 0, this_me := None,
                                            this_data := None\<rparr>
                              | Returned p \<Rightarrow> A2\<lparr>this_data := p\<rparr>);
                        A4 = (if this_data A3 = None
                              then A3\<lparr>this_m := 0, this_n := 0, this_me := None\<rparr> else A3)
                    in if this_data A4 = None \<and> i \<noteq> 0 then Inl (NoMemory, A4, h')
                       else Inr (set_rows (GetFirst S i i) (GetSecond S i i) A4, h'))))
        else Inr (A, h))"

text \<open>\<open>SetData(int i, int j, pointer data)\<close>.\<close>

definition Triangular_SetData ::
  "int \<Rightarrow> int \<Rightarrow> addr option \<Rightarrow> dealloc_outcome \<Rightarrow> me_outcome \<Rightarrow> Matrix_Triangular \<times> 'a heap
     \<Rightarrow> Matrix_Triangular \<times> 'a heap" where
  "Triangular_SetData i j data doc moc s =
     (case Triangular_Clear doc s of (A, h) \<Rightarrow>
        (let A0 = A\<lparr>this_m := i, this_n := i\<rparr> in
         case calloc_me i moc of
           Threw \<Rightarrow> (A0\<lparr>this_m := 0, this_n := 0, this_me := None, this_data := None\<rparr>, h)
         | Returned None \<Rightarrow> (A0\<lparr>this_me := None, this_m := 0, this_n := 0, this_data := None\<rparr>, h)
         | Returned (Some me) \<Rightarrow> (set_rows i i (A0\<lparr>this_me := Some me, this_data := data\<rparr>), h)))"

text \<open>\<open>Nullify()\<close>: releases the pointer array only.\<close>

definition Triangular_Nullify :: "Matrix_Triangular \<times> 'a heap \<Rightarrow> Matrix_Triangular \<times> 'a heap" where
  "Triangular_Nullify s =
     (case s of (A, h) \<Rightarrow>
        (let A0 = A\<lparr>this_m := 0, this_n := 0\<rparr>;
             A1 = (if this_me A0 \<noteq> None then A0\<lparr>this_me := None\<rparr> else A0)
         in (A1\<lparr>this_data := None\<rparr>, h)))"

subsection \<open>The states a caller can observe\<close>

text \<open>
  A caller sees a matrix between two calls. The states it can see are the ones built by
  a constructor that returned, followed by any sequence of \<open>Clear\<close>, \<open>Reallocate\<close>
  (returning or throwing), \<open>SetData\<close> and \<open>Nullify\<close>, while the rest of the program
  may change the store in between.
\<close>

definition dims :: "'z Matrix_Base_scheme \<Rightarrow> int \<times> int" where
  "dims A = (GetM A, GetN A)"

inductive HermPacked_reachable :: "Matrix_Base \<times> 'a heap \<Rightarrow> bool" where
  hp_ctor: "HermPacked_reachable (HermPacked_Matrix i j oc h)"
| hp_env: "HermPacked_reachable (A, h) \<Longrightarrow> HermPacked_reachable (A, h')"
| hp_clear: "HermPacked_reachable s \<Longrightarrow> HermPacked_reachable (HermPacked_Clear doc s)"
| hp_realloc:
    "HermPacked_reachable s \<Longrightarrow> HermPacked_Reallocate i j oc s = Inr s'
       \<Longrightarrow> HermPacked_reachable s'"
| hp_realloc_fail:
    "HermPacked_reachable s \<Longrightarrow> HermPacked_Reallocate i j oc s = Inl (e, s')
       \<Longrightarrow> HermPacked_reachable s'"
| hp_setdata: "HermPacked_reachable s \<Longrightarrow> HermPacked_reachable (HermPacked_SetData i j d doc s)"
| hp_nullify: "HermPacked_reachable s \<Longrightarrow> HermPacked_reachable (HermPacked_Nullify s)"

inductive Triangular_reachable :: "Storage \<Rightarrow> Matrix_Triangular \<times> 'a heap \<Rightarrow> bool" where
  tr_ctor: "Triangular_Matrix i j moc oc h = Inr s \<Longrightarrow> Triangular_reachable S s"
| tr_env: "Triangular_reachable S (A, h) \<Longrightarrow> Triangular_reachable S (A, h')"
| tr_clear: "Triangular_reachable S s \<Longrightarrow> Triangular_reachable S (Triangular_Clear doc s)"
| tr_realloc:
    "Triangular_reachable S s \<Longrightarrow> Triangular_Reallocate S i j moc oc s = Inr s'
       \<Longrightarrow> Triangular_reachable S s'"
| tr_realloc_fail:
    "Triangular_reachable S s \<Longrightarrow> Triangular_Reallocate S i j moc oc s = Inl (e, s')
       \<Longrightarrow> Triangular_reachable S s'"
| tr_setdata:
    "Triangular_reachable S s \<Longrightarrow> Triangular_reachable S (Triangular_SetData i j d doc moc s)"
| tr_nullify: "Triangular_reachable S s \<Longrightarrow> Triangular_reachable S (Triangular_Nullify s)"


subsection \<open>Failed allocations, empty matrices, buffer sizes\<close>



definition empty_matrix :: "'z Matrix_Base_scheme \<Rightarrow> bool" where
  "empty_matrix A = (this_m A = 0 \<and> this_n A = 0 \<and> this_data A = None)"



section \<open>Element access and Resize\<close>



definition elem_at :: "'a list \<Rightarrow> int \<Rightarrow> 'a option" where
  "elem_at xs k = (if 0 \<le> k \<and> nat k < length xs then Some (xs ! nat k) else None)"

definition put :: "'a list \<Rightarrow> int \<Rightarrow> 'a option \<Rightarrow> 'a list" where
  "put b k v =
     (case v of
        None \<Rightarrow> b
      | Some x \<Rightarrow> if 0 \<le> k \<and> nat k < length b then b[nat k := x] else b)"

text \<open>The values of \<open>k\<close> in \<open>for (int k = a; k < b; k++)\<close>.\<close>

definition int_range :: "int \<Rightarrow> int \<Rightarrow> int list" where
  "int_range a b = map (\<lambda>k. a + int k) [0..<nat (b - a)]"




text \<open>
  Modelled from the spec: the packed offsets of a Hermitian packed matrix, whose
  accessor is defined in a header that is not among the translated sources. "Only
  \<open>n (n + 1) / 2\<close> entries [are] stored contiguously", those of the upper triangle:
  row after row in the row-major layout, where row \<open>k\<close> holds the columns \<open>k\<close> to
  \<open>n - 1\<close> and so starts at \<open>row_offset n k\<close>; column after column in the
  column-major layout, where column \<open>l\<close> holds the rows 0 to \<open>l\<close>.
\<close>

definition row_offset :: "int \<Rightarrow> int \<Rightarrow> int" where
  "row_offset n k = k * n - (k * (k - 1)) div 2"















section \<open>Binary Write and Read\<close>


















section \<open>Text WriteText and ReadText of a triangular matrix\<close>














section \<open>QmrSym\<close>

text \<open>
  \<open>QmrSym\<close> is a function template. Its scalar type \<open>Complexe\<close> is a type variable
  with the operators the code applies to it and no law assumed of them, so that what is
  proved holds for floating-point numbers too; \<open>a div b\<close> is the division of the
  scalar type, written \<open>a / b\<close> on a field. \<open>Treal\<close> is identified with
  \<open>Complexe\<close> (the instance for real scalars). Vectors are lists.

  What the template calls and the translated sources do not contain is a parameter of
  the model: the matrix (\<open>GetM\<close> and the products \<open>iter.Mlt\<close>, \<open>iter.MltAdd\<close>),
  the preconditioner's \<open>Solve\<close>, \<open>Norm2\<close>, \<open>DotProd\<close>, \<open>sqrt\<close> and
  \<open>iter.Init\<close>.
\<close>

record ('a, 'm, 'pc, 'it) kernels =
  A_GetM :: "'m \<Rightarrow> int"
  iter_Mlt :: "'m \<Rightarrow> 'a list \<Rightarrow> 'a list"
  iter_MltAdd :: "'a \<Rightarrow> 'm \<Rightarrow> 'a list \<Rightarrow> 'a \<Rightarrow> 'a list \<Rightarrow> 'a list"
  M_Solve :: "'pc \<Rightarrow> 'm \<Rightarrow> 'a list \<Rightarrow> 'a list"
  Norm2 :: "'a list \<Rightarrow> 'a"
  DotProd :: "'a list \<Rightarrow> 'a list \<Rightarrow> 'a"
  sqrt_fn :: "'a \<Rightarrow> 'a"
  iter_Init :: "'a list \<Rightarrow> 'it \<Rightarrow> int \<times> 'it"

text \<open>
  The vector updates, as the comments of the source read them: \<open>Mlt(alpha, X)\<close> is
  \<open>X = alpha X\<close>, \<open>Add(alpha, X, Y)\<close> is \<open>Y = Y + alpha X\<close>, \<open>Copy(X, Y)\<close> is
  \<open>Y = X\<close>, \<open>X.Fill(a)\<close> sets every component to \<open>a\<close>.
\<close>

definition Mlt :: "'a::times \<Rightarrow> 'a list \<Rightarrow> 'a list" where
  "Mlt alpha X = map (\<lambda>x. alpha * x) X"

definition Add :: "'a::{plus,times} \<Rightarrow> 'a list \<Rightarrow> 'a list \<Rightarrow> 'a list" where
  "Add alpha X Y = map (\<lambda>(x, y). y + alpha * x) (zip X Y)"

definition Copy :: "'a list \<Rightarrow> 'a list \<Rightarrow> 'a list" where
  "Copy X Y = X"

definition Fill :: "'a \<Rightarrow> 'a list \<Rightarrow> 'a list" where
  "Fill a X = map (\<lambda>x. a) X"

text \<open>
  Modelled from the spec: the class \<open>Iteration\<close>, which is not among the translated
  sources. It "holds convergence tolerance, maximum iteration count, and accumulated
  iteration counter/error code"; the loop runs until "residual norm below tolerance, or
  iteration cap"; the status is "0 = converged, nonzero = specific breakdown or
  iteration-limit code". The value of the iteration-limit code is not given: it is the
  field \<open>limit_code\<close>. The first iteration is the one with counter 0.
\<close>

record 'a Iteration =
  tolerance :: 'a
  max_iter :: int
  nb_iter :: int
  error_code :: int
  fail_convergence :: bool
  init_guess_null :: bool
  limit_code :: int

definition IsInitGuess_Null :: "'a Iteration \<Rightarrow> bool" where
  "IsInitGuess_Null it = init_guess_null it"

definition SetNumberIteration :: "int \<Rightarrow> 'a Iteration \<Rightarrow> 'a Iteration" where
  "SetNumberIteration k it = it\<lparr>nb_iter := k\<rparr>"

definition Finished ::
  "('a::ord, 'm, 'pc, 'a Iteration) kernels \<Rightarrow> 'a list \<Rightarrow> 'a Iteration \<Rightarrow> bool" where
  "Finished K r it = (Norm2 K r < tolerance it \<or> nb_iter it \<ge> max_iter it)"

definition First :: "'a Iteration \<Rightarrow> bool" where
  "First it = (nb_iter it = 0)"

definition Fail :: "int \<Rightarrow> string \<Rightarrow> 'a Iteration \<Rightarrow> 'a Iteration" where
  "Fail c msg it = it\<lparr>fail_convergence := True, error_code := c\<rparr>"

definition Incr :: "'a Iteration \<Rightarrow> 'a Iteration" where
  "Incr it = it\<lparr>nb_iter := nb_iter it + 1\<rparr>"

definition ErrorCode :: "'a Iteration \<Rightarrow> int" where
  "ErrorCode it =
     (if fail_convergence it then error_code it
      else if nb_iter it \<ge> max_iter it then limit_code it
      else 0)"

text \<open>
  The calls that leave \<open>QmrSym\<close> are recorded in the order they are made, so that
  "this was not invoked" is a statement about the run.
\<close>

datatype call =
  Call_Init | Call_ErrorCode | Call_IsInitGuess_Null | Call_MltAdd | Call_Solve
  | Call_SetNumberIteration | Call_Finished | Call_Fail int | Call_First | Call_Mlt | Call_Incr

text \<open>
  The local variables of \<open>QmrSym\<close>, the solution \<open>x\<close>, the iteration object and
  the calls made so far. The source leaves \<open>delta\<close>, \<open>beta\<close>, \<open>rho_1\<close>,
  \<open>theta_1\<close> and \<open>gamma_1\<close> uninitialised; each is assigned before it is read,
  and the model starts them at zero.
\<close>

record 'a qmr_state =
  s_x :: "'a list"
  s_r :: "'a list"
  s_y :: "'a list"
  s_v :: "'a list"
  s_p_tld :: "'a list"
  s_p :: "'a list"
  s_d :: "'a list"
  s_s :: "'a list"
  s_delta :: 'a
  s_ep :: 'a
  s_beta :: 'a
  s_rho :: 'a
  s_rho_1 :: 'a
  s_theta_1 :: 'a
  s_gamma_1 :: 'a
  s_theta :: 'a
  s_gamma :: 'a
  s_eta :: 'a
  s_iter :: "'a Iteration"
  s_log :: "call list"

definition log_call :: "call \<Rightarrow> 'a qmr_state \<Rightarrow> 'a qmr_state" where
  "log_call c st = st\<lparr>s_log := s_log st @ [c]\<rparr>"

definition fail_with :: "int \<Rightarrow> string \<Rightarrow> 'a qmr_state \<Rightarrow> 'a qmr_state" where
  "fail_with c msg st = log_call (Call_Fail c) (st\<lparr>s_iter := Fail c msg (s_iter st)\<rparr>)"

datatype 'a step = Break 'a | Continue 'a

text \<open>
  The body of the \<open>while\<close> loop, split where the source tests for a breakdown.
  \<open>Break\<close> is the \<open>break\<close> statement.
\<close>

definition body_normalize :: "'a::{one,times,divide} qmr_state \<Rightarrow> 'a qmr_state" where
  "body_normalize st =
     (let st1 = st\<lparr>s_v := Mlt (1 div s_rho st) (s_v st)\<rparr>
      in st1\<lparr>s_y := Mlt (1 div s_rho st1) (s_y st1)\<rparr>)"

definition body_direction ::
  "('a::{one,plus,times,uminus,divide}, 'm, 'pc, 'a Iteration) kernels \<Rightarrow> 'm
     \<Rightarrow> 'a qmr_state \<Rightarrow> 'a qmr_state" where
  "body_direction K A st =
     (let st1 = log_call Call_First st;
          st2 = (if First (s_iter st1) then st1\<lparr>s_p := Copy (s_y st1) (s_p st1)\<rparr>
                 else (let st' = st1\<lparr>s_p := Mlt ((- s_rho st1) * s_delta st1 div s_ep st1) (s_p st1)\<rparr>
                       in st'\<lparr>s_p := Add 1 (s_y st') (s_p st')\<rparr>));
          st3 = log_call Call_Mlt (st2\<lparr>s_p_tld := iter_Mlt K A (s_p st2)\<rparr>)
      in st3\<lparr>s_ep := DotProd K (s_p st3) (s_p_tld st3)\<rparr>)"

definition body_lanczos ::
  "('a::{one,plus,times,uminus,divide}, 'm, 'pc, 'a Iteration) kernels \<Rightarrow> 'm \<Rightarrow> 'pc
     \<Rightarrow> 'a qmr_state \<Rightarrow> 'a qmr_state" where
  "body_lanczos K A M st =
     (let st1 = st\<lparr>s_v := Mlt (- s_beta st) (s_v st)\<rparr>;
          st2 = st1\<lparr>s_v := Add 1 (s_p_tld st1) (s_v st1)\<rparr>;
          st3 = log_call Call_Solve (st2\<lparr>s_y := M_Solve K M A (s_v st2)\<rparr>);
          st4 = st3\<lparr>s_rho_1 := s_rho st3\<rparr>;
          st5 = st4\<lparr>s_rho := Norm2 K (s_y st4)\<rparr>;
          st6 = st5\<lparr>s_gamma_1 := s_gamma st5\<rparr>;
          st7 = st6\<lparr>s_theta_1 := s_theta st6\<rparr>;
          st8 = st7\<lparr>s_theta := s_rho st7 div (s_gamma_1 st7 * s_beta st7)\<rparr>
      in st8\<lparr>s_gamma := 1 div sqrt_fn K (1 + s_theta st8 * s_theta st8)\<rparr>)"

definition body_update :: "'a::{one,plus,times,uminus,divide} qmr_state \<Rightarrow> 'a qmr_state" where
  "body_update st =
     (let st1 = st\<lparr>s_eta := (- s_eta st) * s_rho_1 st * s_gamma st * s_gamma st
                          div (s_beta st * s_gamma_1 st * s_gamma_1 st)\<rparr>;
          st2 = log_call Call_First st1;
          st3 = (if First (s_iter st2) then
                   (let a = st2\<lparr>s_d := Copy (s_p st2) (s_d st2)\<rparr>;
                        b = a\<lparr>s_d := Mlt (s_eta a) (s_d a)\<rparr>;
                        c = b\<lparr>s_s := Copy (s_p_tld b) (s_s b)\<rparr>
                    in c\<lparr>s_s := Mlt (s_eta c) (s_s c)\<rparr>)
                 else
                   (let tmp = s_theta_1 st2 * s_theta_1 st2 * s_gamma st2 * s_gamma st2;
                        a = st2\<lparr>s_d := Mlt tmp (s_d st2)\<rparr>;
                        b = a\<lparr>s_d := Add (s_eta a) (s_p a) (s_d a)\<rparr>;
                        c = b\<lparr>s_s := Mlt tmp (s_s b)\<rparr>
                    in c\<lparr>s_s := Add (s_eta c) (s_p_tld c) (s_s c)\<rparr>));
          st4 = st3\<lparr>s_x := Add 1 (s_d st3) (s_x st3)\<rparr>;
          st5 = st4\<lparr>s_r := Add (- 1) (s_s st4) (s_r st4)\<rparr>
      in log_call Call_Incr (st5\<lparr>s_iter := Incr (s_iter st5)\<rparr>))"

text \<open>The state at each of the tests, from the state at the head of the loop.\<close>

definition at_delta ::
  "('a::{one,times,divide}, 'm, 'pc, 'a Iteration) kernels \<Rightarrow> 'a qmr_state \<Rightarrow> 'a qmr_state" where
  "at_delta K st =
     (let st1 = body_normalize st in st1\<lparr>s_delta := DotProd K (s_v st1) (s_y st1)\<rparr>)"

definition at_ep ::
  "('a::{one,plus,times,uminus,divide}, 'm, 'pc, 'a Iteration) kernels \<Rightarrow> 'm
     \<Rightarrow> 'a qmr_state \<Rightarrow> 'a qmr_state" where
  "at_ep K A st = body_direction K A (at_delta K st)"

definition at_beta ::
  "('a::{one,plus,times,uminus,divide}, 'm, 'pc, 'a Iteration) kernels \<Rightarrow> 'm
     \<Rightarrow> 'a qmr_state \<Rightarrow> 'a qmr_state" where
  "at_beta K A st = (let st3 = at_ep K A st in st3\<lparr>s_beta := s_ep st3 div s_delta st3\<rparr>)"

definition at_gamma ::
  "('a::{one,plus,times,uminus,divide}, 'm, 'pc, 'a Iteration) kernels \<Rightarrow> 'm \<Rightarrow> 'pc
     \<Rightarrow> 'a qmr_state \<Rightarrow> 'a qmr_state" where
  "at_gamma K A M st = body_lanczos K A M (at_beta K A st)"

definition qmr_body ::
  "('a::{zero,one,plus,times,uminus,divide}, 'm, 'pc, 'a Iteration) kernels \<Rightarrow> 'm \<Rightarrow> 'pc
     \<Rightarrow> 'a qmr_state \<Rightarrow> 'a qmr_state step" where
  "qmr_body K A M st =
     (if s_rho st = 0 then Break (fail_with 1 ''Qmr breakdown #1'' st)
      else if s_delta (at_delta K st) = 0
        then Break (fail_with 3 ''Qmr breakdown #2'' (at_delta K st))
      else if s_ep (at_ep K A st) = 0
        then Break (fail_with 4 ''Qmr breakdown #3'' (at_ep K A st))
      else if s_beta (at_beta K A st) = 0
        then Break (fail_with 5 ''Qmr breakdown #4'' (at_beta K A st))
      else if s_gamma (at_gamma K A M st) = 0
        then Break (fail_with 6 ''Qmr breakdown #5'' (at_gamma K A M st))
      else Continue (body_update (at_gamma K A M st)))"

lemma qmr_body_Continue_iter:
  "qmr_body K A M st = Continue st' \<Longrightarrow> s_iter st' = Incr (s_iter st)"
  by (auto simp add: qmr_body_def body_update_def at_gamma_def at_beta_def at_ep_def at_delta_def
      body_lanczos_def body_direction_def body_normalize_def log_call_def Let_def
      split: if_splits)

lemma not_Finished_below_cap: "\<not> Finished K r it \<Longrightarrow> nb_iter it < max_iter it"
  by (simp add: Finished_def)

text \<open>
  \<open>while (! iter.Finished(r)) { ... }\<close>. The loop stops at the iteration cap at the
  latest, since every iteration that does not break increments the counter.
\<close>

function qmr_loop ::
  "('a::{zero,one,plus,times,uminus,divide,ord}, 'm, 'pc, 'a Iteration) kernels \<Rightarrow> 'm \<Rightarrow> 'pc
     \<Rightarrow> 'a qmr_state \<Rightarrow> 'a qmr_state" where
  "qmr_loop K A M st =
     (if Finished K (s_r st) (s_iter st) then log_call Call_Finished st
      else (case qmr_body K A M (log_call Call_Finished st) of
              Break st' \<Rightarrow> st'
            | Continue st' \<Rightarrow> qmr_loop K A M st'))"
  by pat_completeness auto
termination
proof (relation "measure (\<lambda>(K, A, M, st). nat (max_iter (s_iter st) - nb_iter (s_iter st)))")
  show "wf (measure (\<lambda>(K, A, M, st). nat (max_iter (s_iter st) - nb_iter (s_iter st))))"
    by simp
next
  fix K :: "('a, 'm, 'pc, 'a Iteration) kernels" and A M and st st' :: "'a qmr_state"
  assume nf: "\<not> Finished K (s_r st) (s_iter st)"
    and c: "qmr_body K A M (log_call Call_Finished st) = Continue st'"
  have "s_iter st' = Incr (s_iter (log_call Call_Finished st))"
    using c by (rule qmr_body_Continue_iter)
  then have "s_iter st' = Incr (s_iter st)"
    by (simp add: log_call_def)
  moreover have "nb_iter (s_iter st) < max_iter (s_iter st)"
    using nf by (rule not_Finished_below_cap)
  ultimately show "((K, A, M, st'), K, A, M, st)
      \<in> measure (\<lambda>(K, A, M, st). nat (max_iter (s_iter st) - nb_iter (s_iter st)))"
    by (simp add: Incr_def)
qed

text \<open>
  \<open>QmrSym(A, x, b, M, iter)\<close>. The result is the returned status together with what
  the call leaves in \<open>x\<close> and \<open>iter\<close>, both passed by reference, and the calls
  made.
\<close>

definition qmr_init ::
  "('a::{zero,one,plus,times,uminus,divide,ord}, 'm, 'pc, 'a Iteration) kernels \<Rightarrow> 'm
     \<Rightarrow> 'a list \<Rightarrow> 'a list \<Rightarrow> 'pc \<Rightarrow> 'a Iteration \<Rightarrow> call list \<Rightarrow> 'a qmr_state" where
  "qmr_init K A x b M it lg =
     (let st0 = \<lparr>s_x = x, s_r = b, s_y = b, s_v = b, s_p_tld = b, s_p = b, s_d = b, s_s = b,
                 s_delta = 0, s_ep = 0, s_beta = 0, s_rho = 0, s_rho_1 = 0, s_theta_1 = 0,
                 s_gamma_1 = 0, s_theta = 0, s_gamma = 1, s_eta = - 1, s_iter = it,
                 s_log = lg\<rparr>;
          st1 = st0\<lparr>s_r := Copy b (s_r st0)\<rparr>;
          st2 = log_call Call_IsInitGuess_Null st1;
          st3 = (if \<not> IsInitGuess_Null (s_iter st2)
                 then log_call Call_MltAdd
                        (st2\<lparr>s_r := iter_MltAdd K (- 1) A (s_x st2) 1 (s_r st2)\<rparr>)
                 else st2\<lparr>s_x := Fill 0 (s_x st2)\<rparr>);
          st4 = st3\<lparr>s_v := Copy (s_r st3) (s_v st3)\<rparr>;
          st5 = log_call Call_Solve (st4\<lparr>s_y := M_Solve K M A (s_v st4)\<rparr>);
          st6 = st5\<lparr>s_rho := Norm2 K (s_y st5)\<rparr>
      in log_call Call_SetNumberIteration
           (st6\<lparr>s_iter := SetNumberIteration 0 (s_iter st6)\<rparr>))"

definition QmrSym ::
  "('a::{zero,one,plus,times,uminus,divide,ord}, 'm, 'pc, 'a Iteration) kernels \<Rightarrow> 'm
     \<Rightarrow> 'a list \<Rightarrow> 'a list \<Rightarrow> 'pc \<Rightarrow> 'a Iteration
     \<Rightarrow> int \<times> 'a list \<times> 'a Iteration \<times> call list" where
  "QmrSym K A x b M it =
     (let N = A_GetM K A in
      if N \<le> 0 then (0, x, it, [])
      else
        (case iter_Init K b it of (success_init, it1) \<Rightarrow>
           if success_init \<noteq> 0 then (ErrorCode it1, x, it1, [Call_Init, Call_ErrorCode])
           else
             (let st = qmr_loop K A M (qmr_init K A x b M it1 [Call_Init])
              in (ErrorCode (s_iter st), s_x st, s_iter st, s_log st @ [Call_ErrorCode]))))"


subsection \<open>Runs of the loop\<close>

text \<open>
  \<open>iterates K A M st st'\<close>: starting at the head of the loop in state \<open>st\<close>, the
  loop is again at its head in state \<open>st'\<close> after some number of complete iterations.
\<close>

inductive iterates ::
  "('a::{zero,one,plus,times,uminus,divide,ord}, 'm, 'pc, 'a Iteration) kernels \<Rightarrow> 'm \<Rightarrow> 'pc
     \<Rightarrow> 'a qmr_state \<Rightarrow> 'a qmr_state \<Rightarrow> bool"
  for K A M where
  it_refl: "iterates K A M st st"
| it_step:
    "iterates K A M st st1 \<Longrightarrow> \<not> Finished K (s_r st1) (s_iter st1)
       \<Longrightarrow> qmr_body K A M (log_call Call_Finished st1) = Continue st2
       \<Longrightarrow> iterates K A M st st2"

text \<open>
  What the caller gets when the loop is left by \<open>break\<close> with code \<open>c\<close> from a state
  \<open>sk\<close>: the status \<open>c\<close>, the solution vector of \<open>sk\<close>, an iteration object that
  records the failure and has not counted the iteration, and \<open>Fail\<close> followed by
  \<open>ErrorCode\<close> as the last two calls.
\<close>

definition breaks_with ::
  "int \<times> 'a list \<times> 'a Iteration \<times> call list \<Rightarrow> int \<Rightarrow> 'a qmr_state \<Rightarrow> bool" where
  "breaks_with res c sk =
     (case res of (status, x', it', lg) \<Rightarrow>
        status = c \<and> x' = s_x sk \<and> fail_convergence it' \<and> error_code it' = c
        \<and> nb_iter it' = nb_iter (s_iter sk)
        \<and> lg = s_log sk @ [Call_Fail c, Call_ErrorCode])"

subsection \<open>An instance of the parameters\<close>

text \<open>
  Dense matrices given by their rows, the identity preconditioner, the Euclidean norm
  and dot product over a square root \<open>sq\<close>, and an \<open>Init\<close> that reports success. It
  serves to run \<open>QmrSym\<close> on concrete systems: over the reals with \<open>sqrt\<close>, and
  over the integers with the rounded-down square root, an arithmetic that rounds.
\<close>

definition dot :: "'a::{zero,plus,times} list \<Rightarrow> 'a list \<Rightarrow> 'a" where
  "dot X Y = foldl (+) 0 (map (\<lambda>(x, y). x * y) (zip X Y))"

definition dense_kernels ::
  "('a \<Rightarrow> 'a) \<Rightarrow> ('a::{zero,plus,times}, 'a list list, unit, 'a Iteration) kernels" where
  "dense_kernels sq =
     \<lparr>A_GetM = (\<lambda>A. int (length A)),
      iter_Mlt = (\<lambda>A X. map (\<lambda>row. dot row X) A),
      iter_MltAdd = (\<lambda>alpha A X beta Y.
         map (\<lambda>(row, y). beta * y + alpha * dot row X) (zip A Y)),
      M_Solve = (\<lambda>M A v. v),
      Norm2 = (\<lambda>X. sq (dot X X)),
      DotProd = dot,
      sqrt_fn = sq,
      iter_Init = (\<lambda>b it. (0, it))\<rparr>"

primrec isqrt_upto :: "nat \<Rightarrow> nat \<Rightarrow> nat" where
  "isqrt_upto 0 n = 0"
| "isqrt_upto (Suc k) n = (if Suc k * Suc k \<le> n then Suc k else isqrt_upto k n)"

definition isqrt :: "int \<Rightarrow> int" where
  "isqrt n = int (isqrt_upto (nat n) (nat n))"


subsection \<open>A worked system\<close>

text \<open>
  The symmetric system \<open>A x = b\<close> with \<open>A = [[4, 3], [3, 13/4]]\<close> and
  \<open>b = [1, 0]\<close> over the reals, whose solution is \<open>[13/16, - 3/4]\<close>; the states of
  \<open>QmrSym\<close> at the head of the loop after one and after two iterations, started from
  the null initial guess.
\<close>

definition ex_iter :: "real Iteration" where
  "ex_iter = \<lparr>tolerance = 1 / 100, max_iter = 10, nb_iter = 0, error_code = 0,
               fail_convergence = False, init_guess_null = True, limit_code = - 2\<rparr>"

definition ex_A :: "real list list" where
  "ex_A = [[4, 3], [3, 13 / 4]]"

definition ex_b :: "real list" where
  "ex_b = [1, 0]"

definition ex_state1 :: "real qmr_state" where
  "ex_state1 =
     \<lparr>s_x = [4 / 25, 0], s_r = [9 / 25, - 12 / 25], s_y = [0, 3], s_v = [0, 3],
      s_p_tld = [4, 3], s_p = [1, 0], s_d = [4 / 25, 0], s_s = [16 / 25, 12 / 25],
      s_delta = 1, s_ep = 4, s_beta = 4, s_rho = 3, s_rho_1 = 1, s_theta_1 = 0,
      s_gamma_1 = 1, s_theta = 3 / 4, s_gamma = 4 / 5, s_eta = 4 / 25,
      s_iter = ex_iter\<lparr>nb_iter := 1\<rparr>,
      s_log = [Call_Init, Call_IsInitGuess_Null, Call_Solve, Call_SetNumberIteration,
               Call_Finished, Call_First, Call_Mlt, Call_Solve, Call_First, Call_Incr]\<rparr>"

definition ex_state2 :: "real qmr_state" where
  "ex_state2 =
     \<lparr>s_x = [13 / 16, - 3 / 4], s_r = [0, 0], s_y = [0, 0], s_v = [0, 0],
      s_p_tld = [0, 1], s_p = [- 3 / 4, 1], s_d = [261 / 400, - 3 / 4],
      s_s = [9 / 25, - 12 / 25],
      s_delta = 1, s_ep = 1, s_beta = 1, s_rho = 0, s_rho_1 = 3, s_theta_1 = 3 / 4,
      s_gamma_1 = 4 / 5, s_theta = 0, s_gamma = 1, s_eta = - 3 / 4,
      s_iter = ex_iter\<lparr>nb_iter := 2\<rparr>,
      s_log = [Call_Init, Call_IsInitGuess_Null, Call_Solve, Call_SetNumberIteration,
               Call_Finished, Call_First, Call_Mlt, Call_Solve, Call_First, Call_Incr,
               Call_Finished, Call_First, Call_Mlt, Call_Solve, Call_First, Call_Incr]\<rparr>"

text \<open>An iteration object for the runs over the integers.\<close>

definition int_iter :: "int \<Rightarrow> int Iteration" where
  "int_iter tol = \<lparr>tolerance = tol, max_iter = 10, nb_iter = 0, error_code = 0,
                    fail_convergence = False, init_guess_null = True, limit_code = - 2\<rparr>"


section \<open>The runner of the clamped-bar example\<close>

text \<open>
  \<open>main\<close> of \<open>test_ekf.cpp\<close> drives an \<open>ExtendedKalmanFilter\<close> object. The
  class is not among the translated sources: its methods are parameters of the model,
  each a step on the driver's state that returns the new state, or \<open>None\<close> when it
  throws. The calls are recorded in the order they are made. \<open>argv\<close> is the program
  name followed by the arguments, so \<open>argc\<close> is one more than their number.

  An exception leaves the block between \<open>VERDANDI_TRY\<close> and \<open>VERDANDI_END\<close>;
  what the handler of that macro does is not modelled, and the run ends with no exit
  code of \<open>main\<close>'s own. The loop runs while \<open>HasFinished()\<close> is false, which may
  be forever: the model counts the iterations it may still start, and \<open>None\<close> means
  that the count was too small.
\<close>

record 'd driver =
  Initialize :: "string \<Rightarrow> 'd \<Rightarrow> 'd option"
  HasFinished :: "'d \<Rightarrow> bool"
  InitializeStep :: "'d \<Rightarrow> 'd option"
  Forward :: "'d \<Rightarrow> 'd option"
  Analyze :: "'d \<Rightarrow> 'd option"
  FinalizeStep :: "'d \<Rightarrow> 'd option"
  Finalize :: "'d \<Rightarrow> 'd option"

datatype step_call =
  Do_Initialize string | Do_InitializeStep | Do_Forward | Do_Analyze | Do_FinalizeStep
  | Do_Finalize

record 'd run =
  exit_code :: "int option"
  printed :: string
  calls :: "step_call list"
  final :: 'd

definition usage :: "string \<Rightarrow> string" where
  "usage prog = ''Usage:'' @ [CHR 0x0A] @ ''  '' @ prog @ '' [configuration file]'' @ [CHR 0x0A]"

text \<open>The body of the \<open>while\<close> loop: \<open>Inl\<close> when a call threw.\<close>

definition cycle_body ::
  "'d driver \<Rightarrow> 'd \<Rightarrow> step_call list \<Rightarrow> (step_call list) + ('d \<times> step_call list)" where
  "cycle_body D d tr =
     (case InitializeStep D d of
        None \<Rightarrow> Inl (tr @ [Do_InitializeStep])
      | Some d1 \<Rightarrow>
          (case Forward D d1 of
             None \<Rightarrow> Inl (tr @ [Do_InitializeStep, Do_Forward])
           | Some d2 \<Rightarrow>
               (case Analyze D d2 of
                  None \<Rightarrow> Inl (tr @ [Do_InitializeStep, Do_Forward, Do_Analyze])
                | Some d3 \<Rightarrow>
                    (case FinalizeStep D d3 of
                       None \<Rightarrow>
                         Inl (tr @ [Do_InitializeStep, Do_Forward, Do_Analyze, Do_FinalizeStep])
                     | Some d4 \<Rightarrow>
                         Inr (d4, tr @ [Do_InitializeStep, Do_Forward, Do_Analyze,
                                        Do_FinalizeStep])))))"

fun cycles ::
  "nat \<Rightarrow> 'd driver \<Rightarrow> 'd \<Rightarrow> step_call list
     \<Rightarrow> ((step_call list) + ('d \<times> step_call list)) option" where
  "cycles 0 D d tr = (if HasFinished D d then Some (Inr (d, tr)) else None)"
| "cycles (Suc fuel) D d tr =
     (if HasFinished D d then Some (Inr (d, tr))
      else (case cycle_body D d tr of
              Inl tr' \<Rightarrow> Some (Inl tr')
            | Inr (d', tr') \<Rightarrow> cycles fuel D d' tr'))"

definition main :: "nat \<Rightarrow> 'd driver \<Rightarrow> string \<Rightarrow> string list \<Rightarrow> 'd \<Rightarrow> 'd run option" where
  "main fuel D prog args d =
     (let argc = 1 + int (length args) in
      if argc \<noteq> 2 then
        Some \<lparr>exit_code = Some 1, printed = usage prog, calls = [], final = d\<rparr>
      else
        (case Initialize D (args ! 0) d of
           None \<Rightarrow>
             Some \<lparr>exit_code = None, printed = [], calls = [Do_Initialize (args ! 0)], final = d\<rparr>
         | Some d0 \<Rightarrow>
             (case cycles fuel D d0 [Do_Initialize (args ! 0)] of
                None \<Rightarrow> None
              | Some (Inl tr) \<Rightarrow>
                  Some \<lparr>exit_code = None, printed = [], calls = tr, final = d0\<rparr>
              | Some (Inr (d1, tr)) \<Rightarrow>
                  (case Finalize D d1 of
                     None \<Rightarrow>
                       Some \<lparr>exit_code = None, printed = [], calls = tr @ [Do_Finalize],
                             final = d1\<rparr>
                   | Some d2 \<Rightarrow>
                       Some \<lparr>exit_code = Some 0, printed = [], calls = tr @ [Do_Finalize],
                             final = d2\<rparr>))))"

text \<open>
  One cycle that does not throw, and the driver's state after \<open>k\<close> such cycles.
\<close>

definition one_cycle :: "'d driver \<Rightarrow> 'd \<Rightarrow> 'd option" where
  "one_cycle D d =
     Option.bind (InitializeStep D d)
       (\<lambda>d1. Option.bind (Forward D d1) (\<lambda>d2. Option.bind (Analyze D d2) (FinalizeStep D)))"

fun after_cycles :: "'d driver \<Rightarrow> nat \<Rightarrow> 'd \<Rightarrow> 'd option" where
  "after_cycles D 0 d = Some d"
| "after_cycles D (Suc k) d = Option.bind (one_cycle D d) (after_cycles D k)"

text \<open>
  \<open>finishes_after D k d\<close>: from \<open>d\<close>, \<open>HasFinished()\<close> is false before each of
  the first \<open>k\<close> cycles, none of which throws, and true after them.
\<close>

fun finishes_after :: "'d driver \<Rightarrow> nat \<Rightarrow> 'd \<Rightarrow> bool" where
  "finishes_after D 0 d = HasFinished D d"
| "finishes_after D (Suc k) d =
     (\<not> HasFinished D d \<and> (case one_cycle D d of None \<Rightarrow> False | Some d' \<Rightarrow> finishes_after D k d'))"

definition the_cycle :: "step_call list" where
  "the_cycle = [Do_InitializeStep, Do_Forward, Do_Analyze, Do_FinalizeStep]"

text \<open>A driver that counts its cycles and has finished after two of them.\<close>

definition counting_driver :: "nat driver" where
  "counting_driver =
     \<lparr>Initialize = (\<lambda>path d. Some 0),
      HasFinished = (\<lambda>d. 2 \<le> d),
      InitializeStep = Some,
      Forward = Some,
      Analyze = Some,
      FinalizeStep = (\<lambda>d. Some (Suc d)),
      Finalize = Some\<rparr>"


section \<open>Dimensions after each operation\<close>

lemma hp_ctor_dims:
  "dims (fst (HermPacked_Matrix i j oc h)) = (i, i) \<or> dims (fst (HermPacked_Matrix i j oc h)) = (0, 0)"
  by (simp add: HermPacked_Matrix_def allocate_def dims_def GetM_def GetN_def Let_def
      split: alloc_outcome.splits)

lemma hp_clear_dims: "dims (fst (HermPacked_Clear doc s)) = (0, 0)"
  by (simp add: HermPacked_Clear_def deallocate_def dims_def GetM_def GetN_def
      split: prod.splits option.splits dealloc_outcome.splits attempt.splits)

lemma hp_realloc_dims:
  "HermPacked_Reallocate i j oc s = Inr s'
     \<Longrightarrow> dims (fst s') = (i, i) \<or> (i = this_m (fst s) \<and> s' = s)"
  by (auto simp add: HermPacked_Reallocate_def reallocate_def dims_def GetM_def GetN_def Let_def
      split: prod.splits option.splits alloc_outcome.splits attempt.splits if_splits)

lemma hp_realloc_fail_dims:
  "HermPacked_Reallocate i j oc s = Inl (e, s') \<Longrightarrow> dims (fst s') = (0, 0)"
  by (auto simp add: HermPacked_Reallocate_def reallocate_def dims_def GetM_def GetN_def Let_def
      split: prod.splits option.splits alloc_outcome.splits attempt.splits if_splits)

lemma hp_setdata_dims: "dims (fst (HermPacked_SetData i j d doc s)) = (i, i)"
  by (simp add: HermPacked_SetData_def dims_def GetM_def GetN_def split: prod.splits)

lemma hp_nullify_dims: "dims (fst (HermPacked_Nullify s)) = (0, 0)"
  by (simp add: HermPacked_Nullify_def dims_def GetM_def GetN_def split: prod.splits)

lemma hp_reachable_square: "HermPacked_reachable s \<Longrightarrow> GetM (fst s) = GetN (fst s)"
proof (induction rule: HermPacked_reachable.induct)
  case (hp_ctor i j oc h)
  show ?case using hp_ctor_dims[of i j oc h] by (auto simp: dims_def)
next
  case (hp_realloc s i j oc s')
  then show ?case using hp_realloc_dims[of i j oc s s'] by (auto simp: dims_def)
next
  case (hp_realloc_fail s i j oc e s')
  then show ?case using hp_realloc_fail_dims[of i j oc s e s'] by (auto simp: dims_def)
next
  case (hp_clear s doc)
  show ?case using hp_clear_dims[of doc s] by (simp add: dims_def)
next
  case (hp_setdata s i j d doc)
  show ?case using hp_setdata_dims[of i j d doc s] by (simp add: dims_def)
next
  case (hp_nullify s)
  show ?case using hp_nullify_dims[of s] by (simp add: dims_def)
qed simp

lemma set_rows_fields [simp]:
  "this_m (set_rows c l A) = this_m A"
  "this_n (set_rows c l A) = this_n A"
  "this_data (set_rows c l A) = this_data A"
  by (simp_all add: set_rows_def)

lemma tr_ctor_dims: "Triangular_Matrix i j moc oc h = Inr s \<Longrightarrow> dims (fst s) = (i, i)"
  by (auto simp add: Triangular_Matrix_def calloc_me_def allocate_def dims_def GetM_def GetN_def
      Let_def split: alloc_outcome.splits me_outcome.splits if_splits)

lemma tr_ctor_fail_dims: "Triangular_Matrix i j moc oc h = Inl (e, s) \<Longrightarrow> dims (fst s) = (0, 0)"
  by (auto simp add: Triangular_Matrix_def calloc_me_def allocate_def dims_def GetM_def GetN_def
      Let_def split: alloc_outcome.splits me_outcome.splits if_splits)

lemma tr_clear_dims: "dims (fst (Triangular_Clear doc s)) = (0, 0)"
  by (simp add: Triangular_Clear_def deallocate_def dims_def GetM_def GetN_def Let_def
      split: prod.splits option.splits dealloc_outcome.splits attempt.splits)

lemma tr_realloc_dims:
  "Triangular_Reallocate S i j moc oc s = Inr s'
     \<Longrightarrow> dims (fst s') = (i, i) \<or> (i = this_m (fst s) \<and> s' = s)"
  by (auto simp add: Triangular_Reallocate_def realloc_me_def reallocate_def dims_def GetM_def
      GetN_def Let_def split: prod.splits alloc_outcome.splits me_outcome.splits if_splits)

lemma tr_realloc_fail_dims:
  "Triangular_Reallocate S i j moc oc s = Inl (e, s') \<Longrightarrow> dims (fst s') = (0, 0)"
  by (auto simp add: Triangular_Reallocate_def realloc_me_def reallocate_def dims_def GetM_def
      GetN_def Let_def split: prod.splits alloc_outcome.splits me_outcome.splits if_splits)

lemma tr_setdata_dims:
  "dims (fst (Triangular_SetData i j d doc moc s)) = (i, i)
     \<or> dims (fst (Triangular_SetData i j d doc moc s)) = (0, 0)"
  by (simp add: Triangular_SetData_def calloc_me_def dims_def GetM_def GetN_def Let_def
      split: prod.splits me_outcome.splits)

lemma tr_nullify_dims: "dims (fst (Triangular_Nullify s)) = (0, 0)"
  by (simp add: Triangular_Nullify_def dims_def GetM_def GetN_def Let_def split: prod.splits)

lemma tr_reachable_square: "Triangular_reachable S s \<Longrightarrow> GetM (fst s) = GetN (fst s)"
proof (induction rule: Triangular_reachable.induct)
  case (tr_ctor i j moc oc h s S)
  then show ?case using tr_ctor_dims[of i j moc oc h s] by (auto simp: dims_def)
next
  case (tr_realloc S s i j moc oc s')
  then show ?case using tr_realloc_dims[of S i j moc oc s s'] by (auto simp: dims_def)
next
  case (tr_realloc_fail S s i j moc oc e s')
  then show ?case using tr_realloc_fail_dims[of S i j moc oc s e s'] by (auto simp: dims_def)
next
  case (tr_clear S s doc)
  show ?case using tr_clear_dims[of doc s] by (simp add: dims_def)
next
  case (tr_setdata S s i j d doc moc)
  show ?case using tr_setdata_dims[of i j d doc moc s] by (auto simp: dims_def)
next
  case (tr_nullify S s)
  show ?case using tr_nullify_dims[of s] by (simp add: dims_def)
qed simp

lemma hp_ignores_j:
  "HermPacked_Matrix i j oc h = HermPacked_Matrix i j' oc h"
  "HermPacked_Reallocate i j oc s = HermPacked_Reallocate i j' oc s"
  "HermPacked_SetData i j d doc s = HermPacked_SetData i j' d doc s"
  by (simp_all add: HermPacked_Matrix_def HermPacked_Reallocate_def HermPacked_SetData_def)

lemma tr_ignores_j:
  "Triangular_Matrix i j moc oc h = Triangular_Matrix i j' moc oc h"
  "Triangular_Reallocate S i j moc oc t = Triangular_Reallocate S i j' moc oc t"
  "Triangular_SetData i j d doc moc t = Triangular_SetData i j' d doc moc t"
  by (simp_all add: Triangular_Matrix_def Triangular_Reallocate_def Triangular_SetData_def)

text \<open>
  C8. Every packed and every triangular matrix is square at every point where a caller
  can look at it: whatever sequence of constructor, \<open>Clear\<close>, \<open>Reallocate\<close>,
  \<open>SetData\<close> and \<open>Nullify\<close> produced the state, \<open>GetM()\<close> equals \<open>GetN()\<close>.
  The constructor, \<open>Reallocate\<close> and \<open>SetData\<close> do not depend on their argument
  \<open>j\<close>: they leave the matrix \<open>i x i\<close>, or \<open>0 x 0\<close> where an allocation failed;
  \<open>Clear\<close> and \<open>Nullify\<close> leave it \<open>0 x 0\<close>.
\<close>

theorem matrix_always_square:
  assumes "HermPacked_reachable s" and "Triangular_reachable S t"
  shows "GetM (fst s) = GetN (fst s) \<and> GetM (fst t) = GetN (fst t)
    \<and> HermPacked_Matrix i j oc h = HermPacked_Matrix i j' oc h
    \<and> HermPacked_Reallocate i j oc s = HermPacked_Reallocate i j' oc s
    \<and> HermPacked_SetData i j d doc s = HermPacked_SetData i j' d doc s
    \<and> Triangular_Matrix i j moc oc h = Triangular_Matrix i j' moc oc h
    \<and> Triangular_Reallocate S i j moc oc t = Triangular_Reallocate S i j' moc oc t
    \<and> Triangular_SetData i j d doc moc t = Triangular_SetData i j' d doc moc t
    \<and> dims (fst (HermPacked_Matrix i j oc h)) \<in> {(i, i), (0, 0)}
    \<and> (case HermPacked_Reallocate i j oc s of
          Inl (e, s') \<Rightarrow> dims (fst s') = (0, 0) | Inr s' \<Rightarrow> dims (fst s') = (i, i))
    \<and> dims (fst (HermPacked_SetData i j d doc s)) = (i, i)
    \<and> dims (fst (HermPacked_Clear doc s)) = (0, 0)
    \<and> dims (fst (HermPacked_Nullify s)) = (0, 0)
    \<and> (case Triangular_Matrix i j moc oc h of
          Inl (e, t') \<Rightarrow> dims (fst t') = (0, 0) | Inr t' \<Rightarrow> dims (fst t') = (i, i))
    \<and> (case Triangular_Reallocate S i j moc oc t of
          Inl (e, t') \<Rightarrow> dims (fst t') = (0, 0) | Inr t' \<Rightarrow> dims (fst t') = (i, i))
    \<and> dims (fst (Triangular_SetData i j d doc moc t)) \<in> {(i, i), (0, 0)}
    \<and> dims (fst (Triangular_Clear doc t)) = (0, 0)
    \<and> dims (fst (Triangular_Nullify t)) = (0, 0)"
proof -
  have sq_s: "GetM (fst s) = GetN (fst s)"
    using assms(1) by (rule hp_reachable_square)
  have sq_t: "GetM (fst t) = GetN (fst t)"
    using assms(2) by (rule tr_reachable_square)
  have hp_re: "(case HermPacked_Reallocate i j oc s of
          Inl (e, s') \<Rightarrow> dims (fst s') = (0, 0) | Inr s' \<Rightarrow> dims (fst s') = (i, i))"
  proof (cases "HermPacked_Reallocate i j oc s")
    case (Inl a)
    then show ?thesis using hp_realloc_fail_dims[of i j oc s "fst a" "snd a"]
      by (simp add: case_prod_beta)
  next
    case (Inr s')
    then show ?thesis using hp_realloc_dims[of i j oc s s'] sq_s
      by (auto simp: dims_def GetM_def GetN_def)
  qed
  have tr_ct: "(case Triangular_Matrix i j moc oc h of
          Inl (e, t') \<Rightarrow> dims (fst t') = (0, 0) | Inr t' \<Rightarrow> dims (fst t') = (i, i))"
  proof (cases "Triangular_Matrix i j moc oc h")
    case (Inl a)
    then show ?thesis using tr_ctor_fail_dims[of i j moc oc h "fst a" "snd a"]
      by (simp add: case_prod_beta)
  next
    case (Inr t')
    then show ?thesis using tr_ctor_dims[of i j moc oc h t'] by simp
  qed
  have tr_re: "(case Triangular_Reallocate S i j moc oc t of
          Inl (e, t') \<Rightarrow> dims (fst t') = (0, 0) | Inr t' \<Rightarrow> dims (fst t') = (i, i))"
  proof (cases "Triangular_Reallocate S i j moc oc t")
    case (Inl a)
    then show ?thesis using tr_realloc_fail_dims[of S i j moc oc t "fst a" "snd a"]
      by (simp add: case_prod_beta)
  next
    case (Inr t')
    then show ?thesis using tr_realloc_dims[of S i j moc oc t t'] sq_t
      by (auto simp: dims_def GetM_def GetN_def)
  qed
  have hp_c: "dims (fst (HermPacked_Matrix i j oc h)) \<in> {(i, i), (0, 0)}"
    using hp_ctor_dims[of i j oc h] by auto
  have tr_sd: "dims (fst (Triangular_SetData i j d doc moc t)) \<in> {(i, i), (0, 0)}"
    using tr_setdata_dims[of i j d doc moc t] by auto
  show ?thesis
    using sq_s sq_t hp_re tr_ct tr_re hp_c tr_sd
      hp_ignores_j(1)[of i j oc h j'] hp_ignores_j(2)[of i j oc s j']
      hp_ignores_j(3)[of i j d doc s j']
      tr_ignores_j(1)[of i j moc oc h j'] tr_ignores_j(2)[of S i j moc oc t j']
      tr_ignores_j(3)[of i j d doc moc t j']
      hp_setdata_dims[of i j d doc s] hp_clear_dims[of doc s] hp_nullify_dims[of s]
      tr_clear_dims[of doc t] tr_nullify_dims[of t]
    by blast
qed

theorem matrix_always_square_witness:
  "HermPacked_reachable (HermPacked_Matrix 2 5 (Alloc_block 0 (\<lambda>k. 0::int)) Map.empty)
   \<and> Triangular_reachable RowUpTriang
        (Triangular_Nullify
           (\<lparr>this_m = 2, this_n = 2, this_data = Some 0, this_me = Some [(Some 0, 0), (Some 0, 2)]\<rparr>,
            [0 \<mapsto> [0::int, 0, 0, 0]]))
   \<and> GetM (fst (HermPacked_Matrix 2 5 (Alloc_block 0 (\<lambda>k. 0::int)) Map.empty)) = 2
   \<and> GetN (fst (HermPacked_Matrix 2 5 (Alloc_block 0 (\<lambda>k. 0::int)) Map.empty)) = 2
   \<and> GetM (fst (Triangular_Nullify
           (\<lparr>this_m = 2, this_n = 2, this_data = Some 0, this_me = Some [(Some 0, 0), (Some 0, 2)]\<rparr>,
            [0 \<mapsto> [0::int, 0, 0, 0]])))
       = GetN (fst (Triangular_Nullify
           (\<lparr>this_m = 2, this_n = 2, this_data = Some 0, this_me = Some [(Some 0, 0), (Some 0, 2)]\<rparr>,
            [0 \<mapsto> [0::int, 0, 0, 0]])))"
proof -
  let ?s = "HermPacked_Matrix 2 5 (Alloc_block 0 (\<lambda>k. 0::int)) Map.empty"
  let ?t0 = "(\<lparr>this_m = 2, this_n = 2, this_data = Some 0,
                this_me = Some [(Some 0, 0), (Some 0, 2)]\<rparr>, [0 \<mapsto> [0::int, 0, 0, 0]])"
  have hs: "HermPacked_reachable ?s"
    by (rule hp_ctor)
  have "Triangular_Matrix 2 5 Me_block (Alloc_block 0 (\<lambda>k. 0::int)) Map.empty = Inr ?t0"
    by (simp add: Triangular_Matrix_def calloc_me_def allocate_def set_rows_def Let_def
        numeral_2_eq_2 upt_rec)
  then have "Triangular_reachable RowUpTriang ?t0"
    by (rule tr_ctor)
  then have ht: "Triangular_reachable RowUpTriang (Triangular_Nullify ?t0)"
    by (rule tr_nullify)
  have two: "GetM (fst ?s) = 2"
    by (simp add: HermPacked_Matrix_def allocate_def GetM_def Let_def)
  show ?thesis
    using hs ht two matrix_always_square [OF hs ht] by simp
qed


section \<open>Reallocate\<close>






lemma length_fill_me [simp]: "length (fill_me c k p l me) = length me"
  by (induction c arbitrary: k p me) simp_all







section \<open>Resize keeps the overlapping entries\<close>

lemma length_put [simp]: "length (put b k v) = length b"
  by (simp add: put_def split: option.splits)








lemma GetFirst_GetSecond_diag [simp]: "GetFirst S i i = i" "GetSecond S i i = i"
  by (cases S; simp)+




lemma elem_at_Some: "0 \<le> k \<Longrightarrow> nat k < length xs \<Longrightarrow> elem_at xs k = Some (xs ! nat k)"
  by (simp add: elem_at_def)






lemma row_offset_0 [simp]: "row_offset n 0 = 0"
  by (simp add: row_offset_def)


















section \<open>Binary Write and Read\<close>
















section \<open>Text round trip of a triangular matrix\<close>















lemma length_int_range [simp]: "length (int_range a b) = nat (b - a)"
  by (simp add: int_range_def)



























section \<open>SetData and Nullify\<close>

lemma hp_clear_keeps_other:
  "this_data A \<noteq> Some d \<Longrightarrow> snd (HermPacked_Clear doc (A, h)) d = h d"
  by (cases doc) (auto simp add: HermPacked_Clear_def deallocate_def split: option.splits)

lemma tr_clear_keeps_other:
  "this_data T \<noteq> Some d \<Longrightarrow> snd (Triangular_Clear doc (T, h)) d = h d"
  by (cases doc) (auto simp add: Triangular_Clear_def deallocate_def Let_def split: option.splits)

lemma hp_setdata_heap: "snd (HermPacked_SetData i j p doc s) = snd (HermPacked_Clear doc s)"
  by (simp add: HermPacked_SetData_def split: prod.splits)

lemma tr_setdata_heap: "snd (Triangular_SetData i j p doc moc s) = snd (Triangular_Clear doc s)"
  by (cases moc)
    (simp_all add: Triangular_SetData_def calloc_me_def Let_def split: prod.splits)

lemma hp_nullify_heap: "snd (HermPacked_Nullify s) = snd s"
  by (simp add: HermPacked_Nullify_def split: prod.splits)

lemma tr_nullify_heap: "snd (Triangular_Nullify t) = snd t"
  by (simp add: Triangular_Nullify_def Let_def split: prod.splits)

lemma hp_nullify_empty: "empty_matrix (fst (HermPacked_Nullify s))"
  by (simp add: HermPacked_Nullify_def empty_matrix_def split: prod.splits)

lemma tr_nullify_empty:
  "empty_matrix (fst (Triangular_Nullify t)) \<and> this_me (fst (Triangular_Nullify t)) = None"
  by (simp add: Triangular_Nullify_def empty_matrix_def Let_def split: prod.splits)

lemma hp_clear_after_nullify: "snd (HermPacked_Clear doc (HermPacked_Nullify s)) = snd s"
  by (simp add: HermPacked_Nullify_def HermPacked_Clear_def split: prod.splits)

lemma tr_clear_after_nullify: "snd (Triangular_Clear doc (Triangular_Nullify t)) = snd t"
  by (simp add: Triangular_Nullify_def Triangular_Clear_def Let_def split: prod.splits)

text \<open>
  C6. A buffer \<open>d\<close> that is allocated with contents \<open>blk\<close>, and that is not the
  buffer the matrix already owns, is handed over by \<open>SetData(i, j, d)\<close>. After
  \<open>Nullify()\<close> the store still holds \<open>blk\<close> at \<open>d\<close>, and the matrix is
  \<open>0 x 0\<close> with a null data pointer. \<open>Nullify()\<close> changes nothing in the store at
  all, and a \<open>Clear()\<close> that follows it, which is what releases a buffer, releases
  nothing.
\<close>

theorem Nullify_after_SetData:
  assumes "h d = Some blk" and "this_data A \<noteq> Some d" and "this_data T \<noteq> Some d"
  shows "snd (HermPacked_Nullify (HermPacked_SetData i j (Some d) doc (A, h))) d = Some blk
    \<and> empty_matrix (fst (HermPacked_Nullify (HermPacked_SetData i j (Some d) doc (A, h))))
    \<and> snd (Triangular_Nullify (Triangular_SetData i j (Some d) doc moc (T, h))) d = Some blk
    \<and> empty_matrix (fst (Triangular_Nullify (Triangular_SetData i j (Some d) doc moc (T, h))))
    \<and> this_me (fst (Triangular_Nullify (Triangular_SetData i j (Some d) doc moc (T, h)))) = None
    \<and> snd (HermPacked_Nullify s) = snd s
    \<and> snd (Triangular_Nullify t) = snd t
    \<and> snd (HermPacked_Clear doc' (HermPacked_Nullify s)) = snd s
    \<and> snd (Triangular_Clear doc' (Triangular_Nullify t)) = snd t"
proof -
  have hp: "snd (HermPacked_Nullify (HermPacked_SetData i j (Some d) doc (A, h))) d = Some blk"
    using assms(1,2) hp_clear_keeps_other[of A d doc h]
    by (simp add: hp_nullify_heap hp_setdata_heap)
  have tr: "snd (Triangular_Nullify (Triangular_SetData i j (Some d) doc moc (T, h))) d = Some blk"
    using assms(1,3) tr_clear_keeps_other[of T d doc h]
    by (simp add: tr_nullify_heap tr_setdata_heap)
  show ?thesis
    using hp tr hp_nullify_empty tr_nullify_empty hp_nullify_heap tr_nullify_heap
      hp_clear_after_nullify tr_clear_after_nullify
    by blast
qed

theorem Nullify_after_SetData_witness:
  "snd (HermPacked_Nullify (HermPacked_SetData 2 2 (Some 1) Dealloc_ok
      (\<lparr>this_m = 1, this_n = 1, this_data = Some 0\<rparr>, [0 \<mapsto> [9::int], 1 \<mapsto> [4, 5, 6]]))) 1
     = Some [4, 5, 6]
   \<and> snd (Triangular_Nullify (Triangular_SetData 2 2 (Some 1) Dealloc_ok Me_block
      (\<lparr>this_m = 0, this_n = 0, this_data = None, this_me = None\<rparr>,
       [0 \<mapsto> [9::int], 1 \<mapsto> [4, 5, 6]]))) 1
     = Some [4, 5, 6]"
proof -
  let ?h = "[0 \<mapsto> [9::int], 1 \<mapsto> [4, 5, 6]]"
  let ?A = "\<lparr>this_m = 1, this_n = 1, this_data = Some 0\<rparr>"
  let ?T = "\<lparr>this_m = 0, this_n = 0, this_data = None, this_me = None\<rparr>"
  have 1: "?h 1 = Some [4, 5, 6]" by simp
  have 2: "this_data ?A \<noteq> Some 1" by simp
  have 3: "this_data ?T \<noteq> Some 1" by simp
  show ?thesis
    using Nullify_after_SetData [where h = ?h and d = 1 and blk = "[4, 5, 6]" and A = ?A
        and T = ?T and i = 2 and j = 2 and doc = Dealloc_ok and moc = Me_block, OF 1 2 3]
    by blast
qed


section \<open>QmrSym\<close>

lemma qmr_loop_Finished:
  "Finished K (s_r st) (s_iter st) \<Longrightarrow> qmr_loop K A M st = log_call Call_Finished st"
  by (subst qmr_loop.simps) simp

lemma qmr_loop_Break:
  "\<not> Finished K (s_r st) (s_iter st) \<Longrightarrow> qmr_body K A M (log_call Call_Finished st) = Break st'
     \<Longrightarrow> qmr_loop K A M st = st'"
  by (subst qmr_loop.simps) simp

lemma qmr_loop_Continue:
  "\<not> Finished K (s_r st) (s_iter st)
     \<Longrightarrow> qmr_body K A M (log_call Call_Finished st) = Continue st'
     \<Longrightarrow> qmr_loop K A M st = qmr_loop K A M st'"
  by (subst qmr_loop.simps) simp

lemma iterates_loop: "iterates K A M st st1 \<Longrightarrow> qmr_loop K A M st = qmr_loop K A M st1"
  by (induction rule: iterates.induct) (simp_all add: qmr_loop_Continue)

lemma iterates_fail:
  "iterates K A M st st1 \<Longrightarrow> fail_convergence (s_iter st1) = fail_convergence (s_iter st)"
proof (induction rule: iterates.induct)
  case (it_refl st)
  show ?case by simp
next
  case (it_step st st1 st2)
  have "s_iter st2 = Incr (s_iter (log_call Call_Finished st1))"
    using it_step.hyps(3) by (rule qmr_body_Continue_iter)
  then show ?case using it_step.IH by (simp add: Incr_def log_call_def)
qed

lemma ErrorCode_Fail [simp]: "ErrorCode (Fail c msg it) = c"
  by (simp add: ErrorCode_def Fail_def)

lemma fail_with_fields [simp]:
  "s_x (fail_with c msg st) = s_x st"
  "s_iter (fail_with c msg st) = Fail c msg (s_iter st)"
  "s_log (fail_with c msg st) = s_log st @ [Call_Fail c]"
  by (simp_all add: fail_with_def log_call_def)

lemma Fail_fields [simp]:
  "fail_convergence (Fail c msg it)"
  "error_code (Fail c msg it) = c"
  "nb_iter (Fail c msg it) = nb_iter it"
  by (simp_all add: Fail_def)

lemma QmrSym_runs:
  "0 < A_GetM K A \<Longrightarrow> iter_Init K b it = (0, it1) \<Longrightarrow>
   QmrSym K A x b M it =
     (let st = qmr_loop K A M (qmr_init K A x b M it1 [Call_Init])
      in (ErrorCode (s_iter st), s_x st, s_iter st, s_log st @ [Call_ErrorCode]))"
  by (simp add: QmrSym_def Let_def)

lemma breaks_with_fail:
  "breaks_with (ErrorCode (s_iter (fail_with c msg sk)), s_x (fail_with c msg sk),
      s_iter (fail_with c msg sk), s_log (fail_with c msg sk) @ [Call_ErrorCode]) c sk"
  by (simp add: breaks_with_def)

lemma loop_breaks:
  assumes "0 < A_GetM K A" and "iter_Init K b it = (0, it1)"
    and "iterates K A M (qmr_init K A x b M it1 [Call_Init]) st"
    and "\<not> Finished K (s_r st) (s_iter st)"
    and "qmr_body K A M (log_call Call_Finished st) = Break (fail_with c msg sk)"
  shows "breaks_with (QmrSym K A x b M it) c sk"
proof -
  have "qmr_loop K A M (qmr_init K A x b M it1 [Call_Init]) = fail_with c msg sk"
    using iterates_loop[OF assms(3)] qmr_loop_Break[OF assms(4,5)] by simp
  then show ?thesis
    using QmrSym_runs[OF assms(1,2), of x M] breaks_with_fail[of c msg sk]
    by (simp add: Let_def)
qed

lemma loop_converged:
  assumes "0 < A_GetM K A" and "iter_Init K b it = (0, it1)"
    and "iterates K A M (qmr_init K A x b M it1 [Call_Init]) st"
    and "Finished K (s_r st) (s_iter st)"
    and "\<not> fail_convergence it1" and "nb_iter (s_iter st) < max_iter (s_iter st)"
  shows "QmrSym K A x b M it = (0, s_x st, s_iter st, s_log st @ [Call_Finished, Call_ErrorCode])"
proof -
  have l: "qmr_loop K A M (qmr_init K A x b M it1 [Call_Init]) = log_call Call_Finished st"
    using iterates_loop[OF assms(3)] qmr_loop_Finished[OF assms(4)] by simp
  have "fail_convergence (s_iter (qmr_init K A x b M it1 [Call_Init])) = fail_convergence it1"
    by (simp add: qmr_init_def Let_def log_call_def SetNumberIteration_def)
  then have "\<not> fail_convergence (s_iter st)"
    using iterates_fail[OF assms(3)] assms(5) by simp
  then have "ErrorCode (s_iter st) = 0"
    using assms(6) by (simp add: ErrorCode_def)
  then show ?thesis
    using QmrSym_runs[OF assms(1,2), of x M] l by (simp add: Let_def log_call_def)
qed

lemma stages_keep_x:
  "s_x (log_call c st) = s_x st"
  "s_x (at_delta K st) = s_x st"
  "s_x (at_ep K A st) = s_x st"
  "s_x (at_beta K A st) = s_x st"
  "s_x (at_gamma K A M st) = s_x st"
  by (simp_all add: at_gamma_def at_beta_def at_ep_def at_delta_def body_lanczos_def
      body_direction_def body_normalize_def log_call_def Let_def)

lemmas qmr_unfold = qmr_body_def at_gamma_def at_beta_def at_ep_def at_delta_def
  body_update_def body_lanczos_def body_direction_def body_normalize_def log_call_def
  fail_with_def qmr_init_def dense_kernels_def dot_def Let_def Mlt_def Add_def Copy_def
  Fill_def First_def Incr_def IsInitGuess_Null_def SetNumberIteration_def Finished_def

text \<open>
  C10. When the matrix reports a dimension \<open>A.GetM() \<le> 0\<close>, \<open>QmrSym\<close> returns
  status 0 at once: \<open>x\<close> and the iteration object are as they were, and no call was
  made to the preconditioner, to a matrix-vector product or to the iteration object.
\<close>

theorem QmrSym_empty_system:
  assumes "A_GetM K A \<le> 0"
  shows "QmrSym K A x b M it = (0, x, it, [])"
  using assms by (simp add: QmrSym_def)

theorem QmrSym_empty_system_witness:
  "A_GetM (dense_kernels isqrt) [] \<le> 0
   \<and> QmrSym (dense_kernels isqrt) [] [7] [1] () (int_iter 1) = (0, [7], int_iter 1, [])"
proof -
  have a: "A_GetM (dense_kernels isqrt) [] \<le> 0"
    by (simp add: dense_kernels_def)
  show ?thesis
    using a QmrSym_empty_system [OF a, of "[7]" "[1]" "()" "int_iter 1"] by simp
qed


text \<open>
  C1. Take a run of \<open>QmrSym\<close> on a system of positive dimension whose \<open>Init\<close>
  succeeded, and a state \<open>st\<close> at the head of the loop in that run. If the loop is
  not finished there, the first breakdown test that fires decides the result: \<open>rho\<close>
  zero gives status 1, \<open>delta\<close> zero 3, \<open>ep\<close> zero 4, \<open>beta\<close> zero 5,
  \<open>gamma\<close> zero 6, five different nonzero codes. The status is a returned value;
  the iteration halts at once: \<open>x\<close> is the one of \<open>st\<close>, the iteration is not
  counted, and the last two calls are \<open>Fail\<close> and \<open>ErrorCode\<close>. If the loop is
  finished at \<open>st\<close> below the iteration cap, on an iteration object that had not
  failed, the run has converged and the status is 0.
\<close>

theorem QmrSym_breakdown_codes:
  assumes "0 < A_GetM K A" and "iter_Init K b it = (0, it1)"
    and "iterates K A M (qmr_init K A x b M it1 [Call_Init]) st"
    and "h = log_call Call_Finished st"
  shows "(Finished K (s_r st) (s_iter st) \<and> \<not> fail_convergence it1
            \<and> nb_iter (s_iter st) < max_iter (s_iter st)
          \<longrightarrow> QmrSym K A x b M it
                = (0, s_x st, s_iter st, s_log st @ [Call_Finished, Call_ErrorCode]))
    \<and> (\<not> Finished K (s_r st) (s_iter st) \<and> s_rho h = 0
          \<longrightarrow> breaks_with (QmrSym K A x b M it) 1 h)
    \<and> (\<not> Finished K (s_r st) (s_iter st) \<and> s_rho h \<noteq> 0 \<and> s_delta (at_delta K h) = 0
          \<longrightarrow> breaks_with (QmrSym K A x b M it) 3 (at_delta K h))
    \<and> (\<not> Finished K (s_r st) (s_iter st) \<and> s_rho h \<noteq> 0 \<and> s_delta (at_delta K h) \<noteq> 0
          \<and> s_ep (at_ep K A h) = 0
          \<longrightarrow> breaks_with (QmrSym K A x b M it) 4 (at_ep K A h))
    \<and> (\<not> Finished K (s_r st) (s_iter st) \<and> s_rho h \<noteq> 0 \<and> s_delta (at_delta K h) \<noteq> 0
          \<and> s_ep (at_ep K A h) \<noteq> 0 \<and> s_beta (at_beta K A h) = 0
          \<longrightarrow> breaks_with (QmrSym K A x b M it) 5 (at_beta K A h))
    \<and> (\<not> Finished K (s_r st) (s_iter st) \<and> s_rho h \<noteq> 0 \<and> s_delta (at_delta K h) \<noteq> 0
          \<and> s_ep (at_ep K A h) \<noteq> 0 \<and> s_beta (at_beta K A h) \<noteq> 0
          \<and> s_gamma (at_gamma K A M h) = 0
          \<longrightarrow> breaks_with (QmrSym K A x b M it) 6 (at_gamma K A M h))
    \<and> s_x h = s_x st \<and> s_x (at_delta K h) = s_x st \<and> s_x (at_ep K A h) = s_x st
    \<and> s_x (at_beta K A h) = s_x st \<and> s_x (at_gamma K A M h) = s_x st"
proof (intro conjI impI)
  assume "Finished K (s_r st) (s_iter st) \<and> \<not> fail_convergence it1
            \<and> nb_iter (s_iter st) < max_iter (s_iter st)"
  then show "QmrSym K A x b M it
                = (0, s_x st, s_iter st, s_log st @ [Call_Finished, Call_ErrorCode])"
    using loop_converged[OF assms(1,2,3)] by simp
next
  assume a: "\<not> Finished K (s_r st) (s_iter st) \<and> s_rho h = 0"
  then have "qmr_body K A M (log_call Call_Finished st) = Break (fail_with 1 ''Qmr breakdown #1'' h)"
    using assms(4) by (simp add: qmr_body_def)
  then show "breaks_with (QmrSym K A x b M it) 1 h"
    using loop_breaks[OF assms(1,2,3)] a by blast
next
  assume a: "\<not> Finished K (s_r st) (s_iter st) \<and> s_rho h \<noteq> 0 \<and> s_delta (at_delta K h) = 0"
  then have "qmr_body K A M (log_call Call_Finished st)
      = Break (fail_with 3 ''Qmr breakdown #2'' (at_delta K h))"
    using assms(4) by (simp add: qmr_body_def)
  then show "breaks_with (QmrSym K A x b M it) 3 (at_delta K h)"
    using loop_breaks[OF assms(1,2,3)] a by blast
next
  assume a: "\<not> Finished K (s_r st) (s_iter st) \<and> s_rho h \<noteq> 0 \<and> s_delta (at_delta K h) \<noteq> 0
          \<and> s_ep (at_ep K A h) = 0"
  then have "qmr_body K A M (log_call Call_Finished st)
      = Break (fail_with 4 ''Qmr breakdown #3'' (at_ep K A h))"
    using assms(4) by (simp add: qmr_body_def)
  then show "breaks_with (QmrSym K A x b M it) 4 (at_ep K A h)"
    using loop_breaks[OF assms(1,2,3)] a by blast
next
  assume a: "\<not> Finished K (s_r st) (s_iter st) \<and> s_rho h \<noteq> 0 \<and> s_delta (at_delta K h) \<noteq> 0
          \<and> s_ep (at_ep K A h) \<noteq> 0 \<and> s_beta (at_beta K A h) = 0"
  then have "qmr_body K A M (log_call Call_Finished st)
      = Break (fail_with 5 ''Qmr breakdown #4'' (at_beta K A h))"
    using assms(4) by (simp add: qmr_body_def)
  then show "breaks_with (QmrSym K A x b M it) 5 (at_beta K A h)"
    using loop_breaks[OF assms(1,2,3)] a by blast
next
  assume a: "\<not> Finished K (s_r st) (s_iter st) \<and> s_rho h \<noteq> 0 \<and> s_delta (at_delta K h) \<noteq> 0
          \<and> s_ep (at_ep K A h) \<noteq> 0 \<and> s_beta (at_beta K A h) \<noteq> 0
          \<and> s_gamma (at_gamma K A M h) = 0"
  then have "qmr_body K A M (log_call Call_Finished st)
      = Break (fail_with 6 ''Qmr breakdown #5'' (at_gamma K A M h))"
    using assms(4) by (simp add: qmr_body_def)
  then show "breaks_with (QmrSym K A x b M it) 6 (at_gamma K A M h)"
    using loop_breaks[OF assms(1,2,3)] a by blast
qed (simp_all add: assms(4) stages_keep_x)

lemma isqrt_vals: "isqrt 0 = 0" "isqrt 1 = 1" "isqrt 2 = 1" "isqrt 4 = 2" "isqrt 5 = 2"
  by (simp_all add: isqrt_def eval_nat_numeral)

theorem QmrSym_breakdown_codes_witness:
  "fst (QmrSym (dense_kernels isqrt) [[1]] [7] [0] () (int_iter 1)) = 0
   \<and> fst (QmrSym (dense_kernels isqrt) [[1]] [7] [0] () (int_iter 0)) = 1
   \<and> fst (QmrSym (dense_kernels isqrt) [[1]] [7] [2] () (int_iter 0)) = 3
   \<and> fst (QmrSym (dense_kernels isqrt) [[0]] [7] [1] () (int_iter 0)) = 4
   \<and> fst (QmrSym (dense_kernels isqrt) [[1, 0], [0, 0]] [7, 7] [1, 1] () (int_iter 0)) = 5
   \<and> fst (QmrSym (dense_kernels isqrt) [[1, 2], [2, 0]] [7, 7] [1, 0] () (int_iter 0)) = 6"
proof -
  let ?K = "dense_kernels isqrt :: (int, int list list, unit, int Iteration) kernels"
  have g0: "0 < A_GetM ?K [[1]]"
    by (simp add: dense_kernels_def)
  have i0: "iter_Init ?K [0] (int_iter 1) = (0, int_iter 1)"
    by (simp add: dense_kernels_def)
  have c0: "Finished ?K (s_r (qmr_init ?K [[1]] [7] [0] () (int_iter 1) [Call_Init])) (s_iter (qmr_init ?K [[1]] [7] [0] () (int_iter 1) [Call_Init])) \<and> \<not> fail_convergence (int_iter 1)
      \<and> nb_iter (s_iter (qmr_init ?K [[1]] [7] [0] () (int_iter 1) [Call_Init])) < max_iter (s_iter (qmr_init ?K [[1]] [7] [0] () (int_iter 1) [Call_Init]))"
    by (simp add: qmr_unfold int_iter_def isqrt_vals)
  have w0: "fst (QmrSym ?K [[1]] [7] [0] () (int_iter 1)) = 0"
    using QmrSym_breakdown_codes [OF g0 i0 it_refl refl, where x = "[7]" and M = "()"] c0
    by (simp add: breaks_with_def split: prod.splits)
  have g1: "0 < A_GetM ?K [[1]]"
    by (simp add: dense_kernels_def)
  have i1: "iter_Init ?K [0] (int_iter 0) = (0, int_iter 0)"
    by (simp add: dense_kernels_def)
  have c1: "\<not> Finished ?K (s_r (qmr_init ?K [[1]] [7] [0] () (int_iter 0) [Call_Init])) (s_iter (qmr_init ?K [[1]] [7] [0] () (int_iter 0) [Call_Init])) \<and> s_rho (log_call Call_Finished (qmr_init ?K [[1]] [7] [0] () (int_iter 0) [Call_Init])) = 0"
    by (simp add: qmr_unfold int_iter_def isqrt_vals)
  have w1: "fst (QmrSym ?K [[1]] [7] [0] () (int_iter 0)) = 1"
    using QmrSym_breakdown_codes [OF g1 i1 it_refl refl, where x = "[7]" and M = "()"] c1
    by (simp add: breaks_with_def split: prod.splits)
  have g3: "0 < A_GetM ?K [[1]]"
    by (simp add: dense_kernels_def)
  have i3: "iter_Init ?K [2] (int_iter 0) = (0, int_iter 0)"
    by (simp add: dense_kernels_def)
  have c3: "\<not> Finished ?K (s_r (qmr_init ?K [[1]] [7] [2] () (int_iter 0) [Call_Init])) (s_iter (qmr_init ?K [[1]] [7] [2] () (int_iter 0) [Call_Init])) \<and> s_rho (log_call Call_Finished (qmr_init ?K [[1]] [7] [2] () (int_iter 0) [Call_Init])) \<noteq> 0
      \<and> s_delta (at_delta ?K (log_call Call_Finished (qmr_init ?K [[1]] [7] [2] () (int_iter 0) [Call_Init]))) = 0"
    by (simp add: qmr_unfold int_iter_def isqrt_vals)
  have w3: "fst (QmrSym ?K [[1]] [7] [2] () (int_iter 0)) = 3"
    using QmrSym_breakdown_codes [OF g3 i3 it_refl refl, where x = "[7]" and M = "()"] c3
    by (simp add: breaks_with_def split: prod.splits)
  have g4: "0 < A_GetM ?K [[0]]"
    by (simp add: dense_kernels_def)
  have i4: "iter_Init ?K [1] (int_iter 0) = (0, int_iter 0)"
    by (simp add: dense_kernels_def)
  have c4: "\<not> Finished ?K (s_r (qmr_init ?K [[0]] [7] [1] () (int_iter 0) [Call_Init])) (s_iter (qmr_init ?K [[0]] [7] [1] () (int_iter 0) [Call_Init])) \<and> s_rho (log_call Call_Finished (qmr_init ?K [[0]] [7] [1] () (int_iter 0) [Call_Init])) \<noteq> 0
      \<and> s_delta (at_delta ?K (log_call Call_Finished (qmr_init ?K [[0]] [7] [1] () (int_iter 0) [Call_Init]))) \<noteq> 0
      \<and> s_ep (at_ep ?K [[0]] (log_call Call_Finished (qmr_init ?K [[0]] [7] [1] () (int_iter 0) [Call_Init]))) = 0"
    by (simp add: qmr_unfold int_iter_def isqrt_vals)
  have w4: "fst (QmrSym ?K [[0]] [7] [1] () (int_iter 0)) = 4"
    using QmrSym_breakdown_codes [OF g4 i4 it_refl refl, where x = "[7]" and M = "()"] c4
    by (simp add: breaks_with_def split: prod.splits)
  have g5: "0 < A_GetM ?K [[1, 0], [0, 0]]"
    by (simp add: dense_kernels_def)
  have i5: "iter_Init ?K [1, 1] (int_iter 0) = (0, int_iter 0)"
    by (simp add: dense_kernels_def)
  have c5: "\<not> Finished ?K (s_r (qmr_init ?K [[1, 0], [0, 0]] [7, 7] [1, 1] () (int_iter 0) [Call_Init])) (s_iter (qmr_init ?K [[1, 0], [0, 0]] [7, 7] [1, 1] () (int_iter 0) [Call_Init])) \<and> s_rho (log_call Call_Finished (qmr_init ?K [[1, 0], [0, 0]] [7, 7] [1, 1] () (int_iter 0) [Call_Init])) \<noteq> 0
      \<and> s_delta (at_delta ?K (log_call Call_Finished (qmr_init ?K [[1, 0], [0, 0]] [7, 7] [1, 1] () (int_iter 0) [Call_Init]))) \<noteq> 0
      \<and> s_ep (at_ep ?K [[1, 0], [0, 0]] (log_call Call_Finished (qmr_init ?K [[1, 0], [0, 0]] [7, 7] [1, 1] () (int_iter 0) [Call_Init]))) \<noteq> 0
      \<and> s_beta (at_beta ?K [[1, 0], [0, 0]] (log_call Call_Finished (qmr_init ?K [[1, 0], [0, 0]] [7, 7] [1, 1] () (int_iter 0) [Call_Init]))) = 0"
    by (simp add: qmr_unfold int_iter_def isqrt_vals)
  have w5: "fst (QmrSym ?K [[1, 0], [0, 0]] [7, 7] [1, 1] () (int_iter 0)) = 5"
    using QmrSym_breakdown_codes [OF g5 i5 it_refl refl, where x = "[7, 7]" and M = "()"] c5
    by (simp add: breaks_with_def split: prod.splits)
  have g6: "0 < A_GetM ?K [[1, 2], [2, 0]]"
    by (simp add: dense_kernels_def)
  have i6: "iter_Init ?K [1, 0] (int_iter 0) = (0, int_iter 0)"
    by (simp add: dense_kernels_def)
  have c6: "\<not> Finished ?K (s_r (qmr_init ?K [[1, 2], [2, 0]] [7, 7] [1, 0] () (int_iter 0) [Call_Init])) (s_iter (qmr_init ?K [[1, 2], [2, 0]] [7, 7] [1, 0] () (int_iter 0) [Call_Init])) \<and> s_rho (log_call Call_Finished (qmr_init ?K [[1, 2], [2, 0]] [7, 7] [1, 0] () (int_iter 0) [Call_Init])) \<noteq> 0
      \<and> s_delta (at_delta ?K (log_call Call_Finished (qmr_init ?K [[1, 2], [2, 0]] [7, 7] [1, 0] () (int_iter 0) [Call_Init]))) \<noteq> 0
      \<and> s_ep (at_ep ?K [[1, 2], [2, 0]] (log_call Call_Finished (qmr_init ?K [[1, 2], [2, 0]] [7, 7] [1, 0] () (int_iter 0) [Call_Init]))) \<noteq> 0
      \<and> s_beta (at_beta ?K [[1, 2], [2, 0]] (log_call Call_Finished (qmr_init ?K [[1, 2], [2, 0]] [7, 7] [1, 0] () (int_iter 0) [Call_Init]))) \<noteq> 0
      \<and> s_gamma (at_gamma ?K [[1, 2], [2, 0]] () (log_call Call_Finished (qmr_init ?K [[1, 2], [2, 0]] [7, 7] [1, 0] () (int_iter 0) [Call_Init]))) = 0"
    by (simp add: qmr_unfold int_iter_def isqrt_vals)
  have w6: "fst (QmrSym ?K [[1, 2], [2, 0]] [7, 7] [1, 0] () (int_iter 0)) = 6"
    using QmrSym_breakdown_codes [OF g6 i6 it_refl refl, where x = "[7, 7]" and M = "()"] c6
    by (simp add: breaks_with_def split: prod.splits)
  show ?thesis
    using w0 w1 w3 w4 w5 w6 by simp
qed


lemma sqrt_vals: "sqrt 9 = 3" "sqrt (25 / 16) = 5 / 4" "sqrt (9 / 25) = 3 / 5"
  by (rule real_sqrt_unique; simp add: power2_eq_square)+

lemma ex_first_iteration:
  "qmr_body (dense_kernels sqrt) ex_A ()
     (log_call Call_Finished
        (qmr_init (dense_kernels sqrt) ex_A [0, 0] ex_b () ex_iter [Call_Init]))
   = Continue ex_state1"
  by (simp add: qmr_unfold ex_A_def ex_b_def ex_iter_def ex_state1_def sqrt_vals)

lemma ex_second_iteration:
  "qmr_body (dense_kernels sqrt) ex_A () (log_call Call_Finished ex_state1) = Continue ex_state2"
  by (simp add: qmr_unfold ex_A_def ex_iter_def ex_state1_def ex_state2_def sqrt_vals)

lemma ex_not_first: "\<not> First (s_iter (log_call Call_Finished ex_state1))"
  by (simp add: ex_state1_def log_call_def First_def)

lemma ex_claimed_update:
  "Add (s_eta ex_state2) (s_p ex_state2)
     (Mlt (s_theta ex_state2 * s_theta ex_state2 * s_gamma ex_state2 * s_gamma ex_state2)
        (s_d ex_state1))
   = [9 / 16, - 3 / 4]"
  by (simp add: ex_state2_def ex_state1_def Add_def Mlt_def)

text \<open>
  C2, as stated, fails on the code. On the worked system the second iteration starts
  from \<open>ex_state1\<close>, reached by the first iteration, and ends in \<open>ex_state2\<close>. Its
  current scalars are \<open>theta = 0\<close> and \<open>gamma = 1\<close>, so the recurrence of the claim
  would give \<open>d = eta p = [9/16, -3/4]\<close>; the code leaves \<open>d = [261/400, -3/4]\<close>,
  which is what makes \<open>x = [13/16, -3/4]\<close> the solution.
\<close>

theorem QmrSym_update_not_current_theta:
  "qmr_body (dense_kernels sqrt) ex_A ()
     (log_call Call_Finished
        (qmr_init (dense_kernels sqrt) ex_A [0, 0] ex_b () ex_iter [Call_Init]))
   = Continue ex_state1
   \<and> \<not> First (s_iter (log_call Call_Finished ex_state1))
   \<and> qmr_body (dense_kernels sqrt) ex_A () (log_call Call_Finished ex_state1)
     = Continue ex_state2
   \<and> s_d ex_state2 = [261 / 400, - 3 / 4]
   \<and> Add (s_eta ex_state2) (s_p ex_state2)
        (Mlt (s_theta ex_state2 * s_theta ex_state2 * s_gamma ex_state2 * s_gamma ex_state2)
           (s_d ex_state1))
     = [9 / 16, - 3 / 4]
   \<and> s_d ex_state2
     \<noteq> Add (s_eta ex_state2) (s_p ex_state2)
         (Mlt (s_theta ex_state2 * s_theta ex_state2 * s_gamma ex_state2 * s_gamma ex_state2)
            (s_d ex_state1))"
proof -
  have d2: "s_d ex_state2 = [261 / 400, - 3 / 4]"
    by (simp add: ex_state2_def)
  have ne: "[261 / 400, - 3 / 4] \<noteq> [9 / 16, - 3 / 4 :: real]"
    by simp
  show ?thesis
    using ex_first_iteration ex_not_first ex_second_iteration d2 ex_claimed_update ne
    by simp
qed

text \<open>
  C2, amended. In an iteration after the first that does not break, the previous
  \<open>d\<close> (respectively \<open>s\<close>) is scaled by \<open>theta_1^2 * gamma^2\<close>, where
  \<open>theta_1\<close> is the \<open>theta\<close> of the previous iteration and \<open>gamma\<close> the current
  one, and \<open>eta\<close> times \<open>p\<close> (respectively \<open>eta\<close> times \<open>p_tld\<close>) is added;
  then \<open>x\<close> is incremented by \<open>d\<close> and \<open>r\<close> is decremented by \<open>s\<close>.
\<close>

theorem QmrSym_direction_update:
  assumes "qmr_body K A M st = Continue st'" and "\<not> First (s_iter st)"
  shows "s_theta_1 st' = s_theta st
    \<and> s_d st' = Add (s_eta st') (s_p st')
                 (Mlt (s_theta_1 st' * s_theta_1 st' * s_gamma st' * s_gamma st') (s_d st))
    \<and> s_s st' = Add (s_eta st') (s_p_tld st')
                 (Mlt (s_theta_1 st' * s_theta_1 st' * s_gamma st' * s_gamma st') (s_s st))
    \<and> s_x st' = Add 1 (s_d st') (s_x st)
    \<and> s_r st' = Add (- 1) (s_s st') (s_r st)"
  using assms
  by (auto simp add: qmr_body_def at_gamma_def at_beta_def at_ep_def at_delta_def
      body_update_def body_lanczos_def body_direction_def body_normalize_def log_call_def
      Let_def split: if_splits)

theorem QmrSym_direction_update_witness:
  "qmr_body (dense_kernels sqrt) ex_A () (log_call Call_Finished ex_state1) = Continue ex_state2
   \<and> \<not> First (s_iter (log_call Call_Finished ex_state1))
   \<and> s_theta_1 ex_state2 = 3 / 4
   \<and> s_d ex_state2
     = Add (s_eta ex_state2) (s_p ex_state2)
         (Mlt (s_theta_1 ex_state2 * s_theta_1 ex_state2 * s_gamma ex_state2 * s_gamma ex_state2)
            (s_d (log_call Call_Finished ex_state1)))
   \<and> s_x ex_state2 = Add 1 (s_d ex_state2) (s_x (log_call Call_Finished ex_state1))"
proof -
  have t: "s_theta_1 ex_state2 = 3 / 4"
    by (simp add: ex_state2_def)
  show ?thesis
    using QmrSym_direction_update [OF ex_second_iteration ex_not_first] t
      ex_second_iteration ex_not_first
    by blast
qed


section \<open>The runner\<close>

lemma cycle_body_ok:
  "one_cycle D d = Some d' \<Longrightarrow> cycle_body D d tr = Inr (d', tr @ the_cycle)"
  by (auto simp add: one_cycle_def cycle_body_def the_cycle_def
      split: option.splits Option.bind_splits)

lemma cycles_finish:
  "finishes_after D k d \<Longrightarrow> k \<le> fuel \<Longrightarrow>
     \<exists>d'. after_cycles D k d = Some d' \<and> HasFinished D d'
        \<and> cycles fuel D d tr = Some (Inr (d', tr @ concat (replicate k the_cycle)))"
proof (induction k arbitrary: d fuel tr)
  case 0
  then show ?case by (cases fuel) simp_all
next
  case (Suc k)
  from Suc.prems(1) obtain d1 where nf: "\<not> HasFinished D d" and c: "one_cycle D d = Some d1"
    and f: "finishes_after D k d1"
    by (auto split: option.splits)
  from Suc.prems(2) obtain fuel' where fu: "fuel = Suc fuel'" and le: "k \<le> fuel'"
    by (cases fuel) auto
  from Suc.IH[OF f le, of "tr @ the_cycle"] obtain d' where
    a: "after_cycles D k d1 = Some d'" and h: "HasFinished D d'"
    and r: "cycles fuel' D d1 (tr @ the_cycle)
            = Some (Inr (d', (tr @ the_cycle) @ concat (replicate k the_cycle)))"
    by blast
  show ?case
    using nf c a h r fu cycle_body_ok[OF c, of tr] by simp
qed

text \<open>
  C9. With a number of arguments other than one, \<open>main\<close> prints the usage message
  and returns 1, and no method of the driver has been called. With one argument, when
  no call throws and \<open>HasFinished()\<close> first holds after \<open>k\<close> cycles, \<open>main\<close>
  returns 0 (given at least \<open>k\<close> iterations to run) and the calls made are exactly
  \<open>Initialize\<close> with that argument, \<open>k\<close> times the four steps \<open>InitializeStep\<close>,
  \<open>Forward\<close>, \<open>Analyze\<close>, \<open>FinalizeStep\<close> in this order, and \<open>Finalize\<close>.
\<close>

theorem main_usage_and_cycle:
  "(length args \<noteq> 1 \<longrightarrow>
      main fuel D prog args d
        = Some \<lparr>exit_code = Some 1, printed = usage prog, calls = [], final = d\<rparr>)
   \<and> (args = [path] \<and> Initialize D path d = Some d0 \<and> finishes_after D k d0
        \<and> after_cycles D k d0 = Some dk \<and> Finalize D dk = Some d' \<and> k \<le> fuel \<longrightarrow>
      main fuel D prog args d
        = Some \<lparr>exit_code = Some 0, printed = [],
                calls = Do_Initialize path # concat (replicate k the_cycle) @ [Do_Finalize],
                final = d'\<rparr>)"
proof (intro conjI impI)
  assume "length args \<noteq> 1"
  then show "main fuel D prog args d
        = Some \<lparr>exit_code = Some 1, printed = usage prog, calls = [], final = d\<rparr>"
    by (simp add: main_def)
next
  assume a: "args = [path] \<and> Initialize D path d = Some d0 \<and> finishes_after D k d0
        \<and> after_cycles D k d0 = Some dk \<and> Finalize D dk = Some d' \<and> k \<le> fuel"
  then have "cycles fuel D d0 [Do_Initialize path]
      = Some (Inr (dk, [Do_Initialize path] @ concat (replicate k the_cycle)))"
    using cycles_finish[of D k d0 fuel "[Do_Initialize path]"] by auto
  then show "main fuel D prog args d
        = Some \<lparr>exit_code = Some 0, printed = [],
                calls = Do_Initialize path # concat (replicate k the_cycle) @ [Do_Finalize],
                final = d'\<rparr>"
    using a by (simp add: main_def)
qed

theorem main_usage_and_cycle_witness:
  "main 5 counting_driver ''test_ekf'' [] 7
     = Some \<lparr>exit_code = Some 1, printed = usage ''test_ekf'', calls = [], final = 7\<rparr>
   \<and> main 5 counting_driver ''test_ekf'' [''a.lua'', ''b.lua''] 7
     = Some \<lparr>exit_code = Some 1, printed = usage ''test_ekf'', calls = [], final = 7\<rparr>
   \<and> main 5 counting_driver ''test_ekf'' [''a.lua''] 7
     = Some \<lparr>exit_code = Some 0, printed = [],
             calls = [Do_Initialize ''a.lua'',
                      Do_InitializeStep, Do_Forward, Do_Analyze, Do_FinalizeStep,
                      Do_InitializeStep, Do_Forward, Do_Analyze, Do_FinalizeStep,
                      Do_Finalize],
             final = 2\<rparr>"
proof -
  have h: "[''a.lua''] = [''a.lua''] \<and> Initialize counting_driver ''a.lua'' 7 = Some 0
      \<and> finishes_after counting_driver 2 0 \<and> after_cycles counting_driver 2 0 = Some 2
      \<and> Finalize counting_driver 2 = Some 2 \<and> (2::nat) \<le> 5"
    by (simp add: counting_driver_def one_cycle_def numeral_2_eq_2)
  have l: "length ([] :: string list) \<noteq> 1" "length [''a.lua'', ''b.lua''] \<noteq> 1"
    by simp_all
  show ?thesis
    using l h
      main_usage_and_cycle [of "[]" 5 counting_driver "''test_ekf''" 7]
      main_usage_and_cycle [of "[''a.lua'', ''b.lua'']" 5 counting_driver "''test_ekf''" 7]
      main_usage_and_cycle [of "[''a.lua'']" 5 counting_driver "''test_ekf''" 7 "''a.lua''"
        0 2 2 2]
    by (simp add: the_cycle_def numeral_2_eq_2)
qed


end

